theory Spec2Isabelle
  imports Complex_Main "HOL-Library.Word"
begin

section \<open>Move values, aborts and checked arithmetic\<close>

text \<open>
  The contracts are Move modules (\<^verbatim>\<open>contracts/sources/flash_loan.move\<close> holds the
  modules \<^verbatim>\<open>flash_loan\<close> and \<^verbatim>\<open>arbitrage_detector\<close>). A \<^verbatim>\<open>u64\<close> is a 64-bit word
  and an \<^verbatim>\<open>address\<close> a 256-bit word. Move arithmetic is checked: \<^verbatim>\<open>+\<close> and \<^verbatim>\<open>*\<close>
  abort on overflow, \<^verbatim>\<open>-\<close> on underflow and \<^verbatim>\<open>/\<close> on a zero divisor. The virtual
  machine reports all four with the one status \<^verbatim>\<open>ARITHMETIC_ERROR\<close>, which is the
  constructor \<open>ArithmeticError\<close>; \<^verbatim>\<open>assert!(c, code)\<close> and \<^verbatim>\<open>abort code\<close> give
  \<open>MoveAbort m code\<close>, \<open>m\<close> the module that aborts. An abort discards every effect of
  the transaction, so an aborted call has no successor state: it is \<open>Inl\<close> of the abort.
\<close>

type_synonym u64 = "64 word"
type_synonym address = "256 word"

datatype abort = MoveAbort string u64 | ArithmeticError

definition u64_add :: "u64 \<Rightarrow> u64 \<Rightarrow> abort + u64" where
  "u64_add a b = (if unat a + unat b < 2 ^ 64 then Inr (a + b) else Inl ArithmeticError)"

definition u64_sub :: "u64 \<Rightarrow> u64 \<Rightarrow> abort + u64" where
  "u64_sub a b = (if unat b \<le> unat a then Inr (a - b) else Inl ArithmeticError)"

definition u64_mul :: "u64 \<Rightarrow> u64 \<Rightarrow> abort + u64" where
  "u64_mul a b = (if unat a * unat b < 2 ^ 64 then Inr (a * b) else Inl ArithmeticError)"

definition u64_div :: "u64 \<Rightarrow> u64 \<Rightarrow> abort + u64" where
  "u64_div a b = (if b = 0 then Inl ArithmeticError else Inr (a div b))"

text \<open>Sequencing: the first abort ends the call.\<close>

definition and_then :: "abort + 'a \<Rightarrow> ('a \<Rightarrow> abort + 'b) \<Rightarrow> abort + 'b" where
  "and_then m f = (case m of Inl e \<Rightarrow> Inl e | Inr x \<Rightarrow> f x)"

section \<open>The parts of the Sui framework the modules call\<close>

text \<open>
  \<^verbatim>\<open>TxContext\<close>: the sender, the transaction digest and the number of object ids the
  transaction has created. \<^verbatim>\<open>object::new\<close> takes the next id, the native
  \<^verbatim>\<open>derive_id(tx_hash, ids_created)\<close>, and counts it. The native hash is not part of
  the repository: it is the parameter \<open>derive_id\<close> of every function that creates an
  object. The counter is a \<open>nat\<close>: no transaction creates \<open>2 ^ 64\<close> objects.
\<close>

record tx_context =
  tc_sender :: address
  tc_tx_hash :: nat
  tc_ids_created :: nat

definition object_new :: "(nat \<Rightarrow> nat \<Rightarrow> address) \<Rightarrow> tx_context \<Rightarrow> address \<times> tx_context" where
  "object_new derive_id ctx =
     (derive_id (tc_tx_hash ctx) (tc_ids_created ctx),
      ctx\<lparr>tc_ids_created := tc_ids_created ctx + 1\<rparr>)"

text \<open>\<^verbatim>\<open>Clock\<close>: only \<^verbatim>\<open>clock::timestamp_ms\<close> is read.\<close>

record clock =
  clk_timestamp_ms :: u64

text \<open>
  \<^verbatim>\<open>Balance<T>\<close> is a struct with the one field \<^verbatim>\<open>value: u64\<close>; \<^verbatim>\<open>Coin<T>\<close> is an
  object holding a balance. \<^verbatim>\<open>balance::split\<close> aborts with \<^verbatim>\<open>ENotEnough\<close> (2) when
  the balance is too small; \<^verbatim>\<open>balance::join\<close> adds with \<^verbatim>\<open>+\<close>.
\<close>

type_synonym balance = u64

record coin =
  coin_id :: address
  coin_balance :: balance

definition balance_value :: "balance \<Rightarrow> u64" where
  "balance_value b = b"

definition balance_split :: "balance \<Rightarrow> u64 \<Rightarrow> abort + (balance \<times> balance)" where
  "balance_split self v =
     (if \<not> v \<le> self then Inl (MoveAbort ''balance'' 2) else Inr (self - v, v))"

definition balance_join :: "balance \<Rightarrow> balance \<Rightarrow> abort + balance" where
  "balance_join self b = u64_add self b"

definition coin_value :: "coin \<Rightarrow> u64" where
  "coin_value c = balance_value (coin_balance c)"

definition coin_into_balance :: "coin \<Rightarrow> balance" where
  "coin_into_balance c = coin_balance c"

definition coin_from_balance ::
  "(nat \<Rightarrow> nat \<Rightarrow> address) \<Rightarrow> balance \<Rightarrow> tx_context \<Rightarrow> coin \<times> tx_context" where
  "coin_from_balance derive_id b ctx =
     (let (i, ctx') = object_new derive_id ctx
      in (\<lparr>coin_id = i, coin_balance = b\<rparr>, ctx'))"

text \<open>
  The abilities of a struct decide what code outside its module may do with a value:
  \<^verbatim>\<open>copy\<close> duplicates it, \<^verbatim>\<open>drop\<close> discards it, and \<^verbatim>\<open>key\<close> with \<^verbatim>\<open>store\<close> lets
  any module hand it to \<^verbatim>\<open>transfer::public_transfer\<close> (or freeze, share or wrap it),
  which keeps the object in storage after the transaction. A "hot potato" is a struct
  with no ability at all.
\<close>

datatype ability = Copy | Drop | Store | Key

definition hot_potato :: "ability list \<Rightarrow> bool" where
  "hot_potato abilities = (abilities = [])"

definition public_transfer_allowed :: "ability list \<Rightarrow> bool" where
  "public_transfer_allowed abilities = (Key \<in> set abilities \<and> Store \<in> set abilities)"

section \<open>Module \<^verbatim>\<open>flash_loan\<close>\<close>

definition EInsufficientBalance :: u64 where "EInsufficientBalance = 0"
definition EInvalidRepayment :: u64 where "EInvalidRepayment = 1"
definition EUnauthorizedAccess :: u64 where "EUnauthorizedAccess = 2"
definition ELoanExpired :: u64 where "ELoanExpired = 3"
definition EMaxLoanExceeded :: u64 where "EMaxLoanExceeded = 4"
definition EPoolNotActive :: u64 where "EPoolNotActive = 5"

text \<open>The events, with the fields in the order of the struct declarations.\<close>

datatype event =
    FlashLoanBorrowed address address u64 u64 u64
  | FlashLoanRepaid address address u64 u64 u64 u64
  | ArbitrageExecuted address address address u64 u64 u64
  | OpportunityDetected address address address string u64 u64 u64 string u64

text \<open>\<^verbatim>\<open>struct FlashLoan<phantom T> has key, store\<close>\<close>

record flash_loan =
  fl_id :: address
  fl_amount :: u64
  fl_fee :: u64
  fl_borrower :: address
  fl_pool_id :: address

definition FlashLoan_abilities :: "ability list" where
  "FlashLoan_abilities = [Key, Store]"

text \<open>\<^verbatim>\<open>struct LiquidityPool<phantom T> has key\<close>\<close>

record liquidity_pool =
  lp_id :: address
  lp_balance :: balance
  lp_fee_rate :: u64
  lp_max_loan_amount :: u64
  lp_total_loans_issued :: u64
  lp_total_fees_collected :: u64
  lp_active :: bool
  lp_admin :: address

text \<open>
  \<^verbatim>\<open>create_pool\<close>: builds the pool and shares it. The result is the shared pool and the
  context. The source checks nothing about \<^verbatim>\<open>fee_rate\<close>.
\<close>

definition create_pool ::
  "(nat \<Rightarrow> nat \<Rightarrow> address) \<Rightarrow> coin \<Rightarrow> u64 \<Rightarrow> u64 \<Rightarrow> tx_context
   \<Rightarrow> abort + (liquidity_pool \<times> tx_context)" where
  "create_pool derive_id initial_balance fee_rate max_loan_amount ctx =
     (let (i, ctx') = object_new derive_id ctx in
          Inr (\<lparr>lp_id = i,
                lp_balance = coin_into_balance initial_balance,
                lp_fee_rate = fee_rate,
                lp_max_loan_amount = max_loan_amount,
                lp_total_loans_issued = 0,
                lp_total_fees_collected = 0,
                lp_active = True,
                lp_admin = tc_sender ctx'\<rparr>, ctx'))"

text \<open>
  \<^verbatim>\<open>borrow\<close>: the three assertions in the order of the source, the fee, the split of the
  balance, the new loan, the counter and the event. The result is the borrowed coin,
  the loan, the pool and the context after the call, and the events emitted.
\<close>

definition borrow ::
  "(nat \<Rightarrow> nat \<Rightarrow> address) \<Rightarrow> liquidity_pool \<Rightarrow> u64 \<Rightarrow> clock \<Rightarrow> tx_context
   \<Rightarrow> abort + (coin \<times> flash_loan \<times> liquidity_pool \<times> tx_context \<times> event list)" where
  "borrow derive_id pool amount clk ctx =
     (if \<not> lp_active pool then Inl (MoveAbort ''flash_loan'' EPoolNotActive)
      else if \<not> amount \<le> lp_max_loan_amount pool
        then Inl (MoveAbort ''flash_loan'' EMaxLoanExceeded)
      else if \<not> balance_value (lp_balance pool) \<ge> amount
        then Inl (MoveAbort ''flash_loan'' EInsufficientBalance)
      else
        let borrower = tc_sender ctx in
        and_then (u64_mul amount (lp_fee_rate pool)) (\<lambda>scaled.
        and_then (u64_div scaled 10000) (\<lambda>fee.
        let pool_id = lp_id pool in
        and_then (balance_split (lp_balance pool) amount) (\<lambda>(rest, borrowed_balance).
        let pool1 = pool\<lparr>lp_balance := rest\<rparr>;
            (borrowed_coin, ctx1) = coin_from_balance derive_id borrowed_balance ctx;
            (i, ctx2) = object_new derive_id ctx1;
            loan = \<lparr>fl_id = i, fl_amount = amount, fl_fee = fee,
                    fl_borrower = borrower, fl_pool_id = pool_id\<rparr> in
        and_then (u64_add (lp_total_loans_issued pool1) 1) (\<lambda>n.
        let pool2 = pool1\<lparr>lp_total_loans_issued := n\<rparr> in
        Inr (borrowed_coin, loan, pool2, ctx2,
             [FlashLoanBorrowed pool_id borrower amount fee (clk_timestamp_ms clk)]))))))"

text \<open>
  \<^verbatim>\<open>repay\<close>: unpacks and deletes the loan, checks the sender and the payment, joins the
  whole payment to the pool's balance and adds the fee to the counter. \<^verbatim>\<open>pool_id\<close>
  of the loan is read for the event only. The result is the pool after the call and
  the events emitted.
\<close>

definition repay ::
  "liquidity_pool \<Rightarrow> coin \<Rightarrow> flash_loan \<Rightarrow> clock \<Rightarrow> tx_context
   \<Rightarrow> abort + (liquidity_pool \<times> event list)" where
  "repay pool payment loan clk ctx =
     (let amount = fl_amount loan; fee = fl_fee loan;
          borrower = fl_borrower loan; pool_id = fl_pool_id loan in
      if \<not> tc_sender ctx = borrower then Inl (MoveAbort ''flash_loan'' EUnauthorizedAccess)
      else
        let payment_amount = coin_value payment in
        and_then (u64_add amount fee) (\<lambda>due.
        if \<not> payment_amount \<ge> due then Inl (MoveAbort ''flash_loan'' EInvalidRepayment)
        else
          and_then (u64_add amount fee) (\<lambda>due'.
          and_then (if payment_amount > due'
                    then and_then (u64_sub payment_amount amount) (\<lambda>d. u64_sub d fee)
                    else Inr 0) (\<lambda>profit.
          and_then (balance_join (lp_balance pool) (coin_into_balance payment)) (\<lambda>joined.
          let pool1 = pool\<lparr>lp_balance := joined\<rparr> in
          and_then (u64_add (lp_total_fees_collected pool1) fee) (\<lambda>collected.
          let pool2 = pool1\<lparr>lp_total_fees_collected := collected\<rparr> in
          Inr (pool2,
               [FlashLoanRepaid pool_id borrower amount fee profit
                  (clk_timestamp_ms clk)])))))))"

text \<open>The admin functions.\<close>

definition toggle_pool_status :: "liquidity_pool \<Rightarrow> tx_context \<Rightarrow> abort + liquidity_pool" where
  "toggle_pool_status pool ctx =
     (if \<not> tc_sender ctx = lp_admin pool then Inl (MoveAbort ''flash_loan'' EUnauthorizedAccess)
      else Inr (pool\<lparr>lp_active := \<not> lp_active pool\<rparr>))"

definition update_fee_rate :: "liquidity_pool \<Rightarrow> u64 \<Rightarrow> tx_context \<Rightarrow> abort + liquidity_pool" where
  "update_fee_rate pool new_fee_rate ctx =
     (if \<not> tc_sender ctx = lp_admin pool then Inl (MoveAbort ''flash_loan'' EUnauthorizedAccess)
      else if \<not> new_fee_rate \<le> 1000 then Inl (MoveAbort ''flash_loan'' 101)
      else Inr (pool\<lparr>lp_fee_rate := new_fee_rate\<rparr>))"

text \<open>The view functions.\<close>

definition pool_balance :: "liquidity_pool \<Rightarrow> u64" where
  "pool_balance pool = balance_value (lp_balance pool)"

definition pool_fee_rate :: "liquidity_pool \<Rightarrow> u64" where
  "pool_fee_rate pool = lp_fee_rate pool"

definition pool_stats :: "liquidity_pool \<Rightarrow> u64 \<times> u64 \<times> bool" where
  "pool_stats pool = (lp_total_loans_issued pool, lp_total_fees_collected pool, lp_active pool)"

section \<open>Module \<^verbatim>\<open>arbitrage_detector\<close>\<close>

text \<open>
  A \<^verbatim>\<open>Table<K, V>\<close> is a map. \<^verbatim>\<open>table::add\<close> aborts in \<^verbatim>\<open>dynamic_field\<close> with
  \<^verbatim>\<open>EFieldAlreadyExists\<close> (0) when the key is present.
\<close>

definition table_add :: "('k \<rightharpoonup> 'v) \<Rightarrow> 'k \<Rightarrow> 'v \<Rightarrow> abort + ('k \<rightharpoonup> 'v)" where
  "table_add t k v =
     (case t k of Some old \<Rightarrow> Inl (MoveAbort ''dynamic_field'' 0)
      | None \<Rightarrow> Inr (t(k \<mapsto> v)))"

record price_oracle =
  po_id :: address
  po_prices :: "string \<rightharpoonup> u64"
  po_last_updated :: "string \<rightharpoonup> u64"
  po_admin :: address

record arbitrage_opportunity =
  ao_id :: address
  ao_pool_a_id :: address
  ao_pool_b_id :: address
  ao_token_pair :: string
  ao_price_a :: u64
  ao_price_b :: u64
  ao_price_difference :: u64
  ao_potential_profit :: u64
  ao_recommended_amount :: u64
  ao_opportunity_type :: string
  ao_created_at :: u64
  ao_expires_at :: u64
  ao_executed :: bool

record arbitrage_detector =
  ad_id :: address
  ad_opportunities :: "address \<rightharpoonup> arbitrage_opportunity"
  ad_registered_pools :: "address list"
  ad_min_profit_threshold :: u64
  ad_max_opportunities :: u64
  ad_admin :: address

record pool_info =
  pi_pool_id :: address
  pi_token_a_type :: string
  pi_token_b_type :: string
  pi_reserve_a :: u64
  pi_reserve_b :: u64
  pi_fee_rate :: u64
  pi_pool_type :: string

text \<open>\<^verbatim>\<open>calculate_amm_price\<close>: 0 for an empty first reserve, else the scaled quotient.\<close>

definition calculate_amm_price :: "u64 \<Rightarrow> u64 \<Rightarrow> abort + u64" where
  "calculate_amm_price reserve_a reserve_b =
     (if reserve_a = 0 then Inr 0
      else and_then (u64_mul reserve_b 1000000) (\<lambda>scaled. u64_div scaled reserve_a))"

text \<open>
  \<^verbatim>\<open>create_opportunity\<close>: a new opportunity object, added to the detector's table under
  its own id. The result is that id, the detector and the context after the call.
\<close>

definition create_opportunity ::
  "(nat \<Rightarrow> nat \<Rightarrow> address) \<Rightarrow> arbitrage_detector \<Rightarrow> address \<Rightarrow> address \<Rightarrow> string
   \<Rightarrow> u64 \<Rightarrow> u64 \<Rightarrow> u64 \<Rightarrow> u64 \<Rightarrow> u64 \<Rightarrow> string \<Rightarrow> clock \<Rightarrow> tx_context
   \<Rightarrow> abort + (address \<times> arbitrage_detector \<times> tx_context)" where
  "create_opportunity derive_id detector pool_a pool_b token_pair price_a price_b
       price_diff profit amount opp_type clk ctx =
     (let (i, ctx') = object_new derive_id ctx in
      and_then (u64_add (clk_timestamp_ms clk) 300000) (\<lambda>expires.
      let opportunity =
            \<lparr>ao_id = i, ao_pool_a_id = pool_a, ao_pool_b_id = pool_b,
             ao_token_pair = token_pair, ao_price_a = price_a, ao_price_b = price_b,
             ao_price_difference = price_diff, ao_potential_profit = profit,
             ao_recommended_amount = amount, ao_opportunity_type = opp_type,
             ao_created_at = clk_timestamp_ms clk, ao_expires_at = expires,
             ao_executed = False\<rparr>;
          opp_id = ao_id opportunity in
      and_then (table_add (ad_opportunities detector) opp_id opportunity) (\<lambda>t.
      Inr (opp_id, detector\<lparr>ad_opportunities := t\<rparr>, ctx'))))"

text \<open>
  \<^verbatim>\<open>detect_dex_arbitrage\<close>. The result is the boolean, the detector and the context
  after the call, and the events emitted.
\<close>

definition detect_dex_arbitrage ::
  "(nat \<Rightarrow> nat \<Rightarrow> address) \<Rightarrow> arbitrage_detector \<Rightarrow> pool_info \<Rightarrow> pool_info \<Rightarrow> clock
   \<Rightarrow> tx_context \<Rightarrow> abort + (bool \<times> arbitrage_detector \<times> tx_context \<times> event list)" where
  "detect_dex_arbitrage derive_id detector pool_a_info pool_b_info clk ctx =
     and_then (calculate_amm_price (pi_reserve_a pool_a_info) (pi_reserve_b pool_a_info))
       (\<lambda>price_a.
     and_then (calculate_amm_price (pi_reserve_a pool_b_info) (pi_reserve_b pool_b_info))
       (\<lambda>price_b.
     and_then (if price_a > price_b then u64_sub price_a price_b
               else u64_sub price_b price_a) (\<lambda>price_diff.
     and_then (u64_mul price_diff 10000) (\<lambda>scaled.
     and_then (u64_add price_a price_b) (\<lambda>price_sum.
     and_then (u64_div price_sum 2) (\<lambda>average.
     and_then (u64_div scaled average) (\<lambda>relative_diff.
     if relative_diff > ad_min_profit_threshold detector then
       and_then (create_opportunity derive_id detector (pi_pool_id pool_a_info)
                   (pi_pool_id pool_b_info) ''SUI/USDC'' price_a price_b price_diff
                   relative_diff 1000000 ''dex_arbitrage'' clk ctx)
         (\<lambda>(opportunity_id, detector', ctx').
            Inr (True, detector', ctx',
                 [OpportunityDetected (tc_sender ctx') (pi_pool_id pool_a_info)
                    (pi_pool_id pool_b_info) ''SUI/USDC'' price_diff relative_diff 1000000
                    ''dex_arbitrage'' (clk_timestamp_ms clk)]))
     else Inr (False, detector, ctx, []))))))))"

text \<open>
  \<^verbatim>\<open>detect_cross_chain_arbitrage\<close>: it emits an event and touches neither the detector
  nor the oracle. The result is the boolean, the detector after the call and the
  events emitted.
\<close>

definition detect_cross_chain_arbitrage ::
  "arbitrage_detector \<Rightarrow> price_oracle \<Rightarrow> u64 \<Rightarrow> u64 \<Rightarrow> clock \<Rightarrow> tx_context
   \<Rightarrow> abort + (bool \<times> arbitrage_detector \<times> event list)" where
  "detect_cross_chain_arbitrage detector oracle sui_price external_price clk ctx =
     and_then (if sui_price > external_price then u64_sub sui_price external_price
               else u64_sub external_price sui_price) (\<lambda>price_diff.
     and_then (u64_mul price_diff 10000) (\<lambda>scaled.
     and_then (u64_add sui_price external_price) (\<lambda>price_sum.
     and_then (u64_div price_sum 2) (\<lambda>average.
     and_then (u64_div scaled average) (\<lambda>relative_diff.
     and_then (u64_mul (ad_min_profit_threshold detector) 2) (\<lambda>higher_threshold.
     if relative_diff > higher_threshold then
       Inr (True, detector,
            [OpportunityDetected (tc_sender ctx) 1 2 ''SUI/USD'' price_diff relative_diff
               5000000 ''cross_chain'' (clk_timestamp_ms clk)])
     else Inr (False, detector, [])))))))"

text \<open>\<^verbatim>\<open>detect_liquidation_opportunity\<close>: the first statement divides by \<^verbatim>\<open>debt_value\<close>.\<close>

definition detect_liquidation_opportunity ::
  "arbitrage_detector \<Rightarrow> u64 \<Rightarrow> u64 \<Rightarrow> u64 \<Rightarrow> clock \<Rightarrow> tx_context
   \<Rightarrow> abort + (bool \<times> arbitrage_detector \<times> event list)" where
  "detect_liquidation_opportunity detector collateral_value debt_value liquidation_threshold
       clk ctx =
     and_then (u64_mul collateral_value 10000) (\<lambda>scaled.
     and_then (u64_div scaled debt_value) (\<lambda>collateral_ratio.
     if collateral_ratio < liquidation_threshold then
       and_then (u64_mul debt_value 500) (\<lambda>reward.
       and_then (u64_div reward 10000) (\<lambda>profit_potential.
       and_then (u64_sub debt_value collateral_value) (\<lambda>shortfall.
       Inr (True, detector,
            [OpportunityDetected (tc_sender ctx) 0 0 ''COLLATERAL/DEBT'' shortfall
               profit_potential debt_value ''liquidation'' (clk_timestamp_ms clk)]))))
     else Inr (False, detector, [])))"

definition opportunity_count :: "arbitrage_detector \<Rightarrow> nat" where
  "opportunity_count detector = card (dom (ad_opportunities detector))"

text \<open>A sample \<open>derive_id\<close> for evaluating the functions on concrete inputs.\<close>

definition sample_derive_id :: "nat \<Rightarrow> nat \<Rightarrow> address" where
  "sample_derive_id h n = word_of_nat (h * 2 ^ 64 + n)"

section \<open>The price formulas\<close>

text \<open>
  Section 4.2 of the specification, in its own words, as exact quotients: the spot price
  of a side is \<open>reserve_quote * SCALE / reserve_base\<close>, and 0 for an empty base reserve;
  \<open>diff = |price_a - price_b|\<close>; \<open>relative_diff_bps = diff * 10000 / avg(price_a,
  price_b)\<close>. Its example reads \<open>19.98\<close> and \<open>4.99\<close> bps for the prices 1000000 against
  1002000 and 1000500. In a \<^verbatim>\<open>PoolInfo\<close> the base reserve is \<^verbatim>\<open>reserve_a\<close> and the quote
  reserve \<^verbatim>\<open>reserve_b\<close>.
\<close>

definition spot_price :: "nat \<Rightarrow> nat \<Rightarrow> rat" where
  "spot_price reserve_base reserve_quote =
     (if reserve_base = 0 then 0 else of_nat (reserve_quote * 1000000) / of_nat reserve_base)"

definition pool_spot_price :: "pool_info \<Rightarrow> rat" where
  "pool_spot_price info = spot_price (unat (pi_reserve_a info)) (unat (pi_reserve_b info))"

definition relative_diff_bps :: "rat \<Rightarrow> rat \<Rightarrow> rat" where
  "relative_diff_bps price_a price_b =
     \<bar>price_a - price_b\<bar> * 10000 / ((price_a + price_b) / 2)"

text \<open>
  What the code computes, on unbounded naturals: every \<^verbatim>\<open>/\<close> of a \<^verbatim>\<open>u64\<close> is the integer
  quotient, so each price, the average and the relative difference are rounded down.
\<close>

definition spot_price_floor :: "nat \<Rightarrow> nat \<Rightarrow> nat" where
  "spot_price_floor reserve_base reserve_quote =
     (if reserve_base = 0 then 0 else reserve_quote * 1000000 div reserve_base)"

definition pool_spot_price_floor :: "pool_info \<Rightarrow> nat" where
  "pool_spot_price_floor info =
     spot_price_floor (unat (pi_reserve_a info)) (unat (pi_reserve_b info))"

definition price_diff_abs :: "nat \<Rightarrow> nat \<Rightarrow> nat" where
  "price_diff_abs price_a price_b =
     (if price_a > price_b then price_a - price_b else price_b - price_a)"

definition relative_diff_bps_floor :: "nat \<Rightarrow> nat \<Rightarrow> nat" where
  "relative_diff_bps_floor price_a price_b =
     price_diff_abs price_a price_b * 10000 div ((price_a + price_b) div 2)"

text \<open>Sample values for evaluating the functions on concrete inputs.\<close>

definition sample_ctx :: tx_context where
  "sample_ctx = \<lparr>tc_sender = 9, tc_tx_hash = 1, tc_ids_created = 0\<rparr>"

definition sample_clock :: clock where
  "sample_clock = \<lparr>clk_timestamp_ms = 1700000000000\<rparr>"

definition sample_pool :: liquidity_pool where
  "sample_pool = \<lparr>lp_id = 10, lp_balance = 1000000, lp_fee_rate = 30,
     lp_max_loan_amount = 500000, lp_total_loans_issued = 0, lp_total_fees_collected = 0,
     lp_active = True, lp_admin = 7\<rparr>"

definition sample_loan :: flash_loan where
  "sample_loan = \<lparr>fl_id = 20, fl_amount = 10000, fl_fee = 30, fl_borrower = 9,
     fl_pool_id = 10\<rparr>"

definition sample_detector :: arbitrage_detector where
  "sample_detector = \<lparr>ad_id = 3, ad_opportunities = Map.empty, ad_registered_pools = [],
     ad_min_profit_threshold = 10, ad_max_opportunities = 100, ad_admin = 7\<rparr>"

definition sample_pool_info :: pool_info where
  "sample_pool_info = \<lparr>pi_pool_id = 40, pi_token_a_type = ''SUI'', pi_token_b_type = ''USDC'',
     pi_reserve_a = 1000000, pi_reserve_b = 1000000, pi_fee_rate = 30,
     pi_pool_type = ''deepbook''\<rparr>"

definition sample_oracle :: price_oracle where
  "sample_oracle = \<lparr>po_id = 4, po_prices = Map.empty, po_last_updated = Map.empty,
     po_admin = 7\<rparr>"

section \<open>Transactions\<close>

text \<open>
  The pool in storage after a transaction that made one call on it: the call's pool when
  the call returned, the pool as it was when the call aborted (an abort reverts the
  transaction).
\<close>

definition pool_after :: "liquidity_pool \<Rightarrow> abort + (liquidity_pool \<times> 'a) \<Rightarrow> liquidity_pool" where
  "pool_after pool r = (case r of Inl e \<Rightarrow> pool | Inr (pool', x) \<Rightarrow> pool')"

section \<open>Checked arithmetic\<close>

lemma unat_u64_add:
  fixes a b :: u64
  shows "unat a + unat b < 2 ^ 64 \<Longrightarrow> unat (a + b) = unat a + unat b"
  using unat_add_lem [of a b] by simp

lemma unat_u64_mul:
  fixes a b :: u64
  shows "unat a * unat b < 2 ^ 64 \<Longrightarrow> unat (a * b) = unat a * unat b"
  using unat_mult_lem [of a b] by simp

lemma unat_u64_sub:
  fixes a b :: u64
  shows "b \<le> a \<Longrightarrow> unat (a - b) = unat a - unat b"
  by (simp add: unat_sub)

lemma u64_add_Inr:
  "unat a + unat b < 2 ^ 64 \<Longrightarrow> u64_add a b = Inr (a + b)"
  by (simp add: u64_add_def)

lemma u64_mul_Inr:
  "unat a * unat b < 2 ^ 64 \<Longrightarrow> u64_mul a b = Inr (a * b)"
  by (simp add: u64_mul_def)

lemma u64_div_Inr:
  "b \<noteq> 0 \<Longrightarrow> u64_div a b = Inr (a div b)"
  by (simp add: u64_div_def)

lemma u64_sub_Inr:
  "b \<le> a \<Longrightarrow> u64_sub a b = Inr (a - b)"
  by (simp add: u64_sub_def word_le_nat_alt)

lemma and_then_Inr [simp]: "and_then (Inr x) f = f x"
  by (simp add: and_then_def)

lemma and_then_Inl [simp]: "and_then (Inl e) f = Inl e"
  by (simp add: and_then_def)

lemma unat_fee:
  fixes amount rate :: u64
  assumes "unat amount * unat rate < 2 ^ 64"
  shows "unat (amount * rate div 10000) = unat amount * unat rate div 10000"
  using assms by (simp add: unat_div unat_u64_mul)

section \<open>\<^verbatim>\<open>borrow\<close>\<close>

lemma borrow_success:
  assumes "lp_active pool" "amount \<le> lp_max_loan_amount pool" "amount \<le> lp_balance pool"
    "unat amount * unat (lp_fee_rate pool) < 2 ^ 64"
    "unat (lp_total_loans_issued pool) + 1 < 2 ^ 64"
  shows "borrow derive_id pool amount clk ctx =
     Inr (\<lparr>coin_id = derive_id (tc_tx_hash ctx) (tc_ids_created ctx), coin_balance = amount\<rparr>,
          \<lparr>fl_id = derive_id (tc_tx_hash ctx) (tc_ids_created ctx + 1), fl_amount = amount,
            fl_fee = amount * lp_fee_rate pool div 10000, fl_borrower = tc_sender ctx,
            fl_pool_id = lp_id pool\<rparr>,
          pool\<lparr>lp_balance := lp_balance pool - amount,
               lp_total_loans_issued := lp_total_loans_issued pool + 1\<rparr>,
          ctx\<lparr>tc_ids_created := tc_ids_created ctx + 2\<rparr>,
          [FlashLoanBorrowed (lp_id pool) (tc_sender ctx) amount
             (amount * lp_fee_rate pool div 10000) (clk_timestamp_ms clk)])"
  using assms
  by (simp add: borrow_def balance_value_def u64_mul_Inr u64_div_Inr u64_add_Inr
      balance_split_def coin_from_balance_def object_new_def Let_def)

lemma borrow_inactive:
  "\<not> lp_active pool \<Longrightarrow>
   borrow derive_id pool amount clk ctx = Inl (MoveAbort ''flash_loan'' EPoolNotActive)"
  by (simp add: borrow_def)

lemma borrow_above_max:
  "lp_active pool \<Longrightarrow> lp_max_loan_amount pool < amount \<Longrightarrow>
   borrow derive_id pool amount clk ctx = Inl (MoveAbort ''flash_loan'' EMaxLoanExceeded)"
  by (simp add: borrow_def not_le)

lemma borrow_above_balance:
  "lp_active pool \<Longrightarrow> amount \<le> lp_max_loan_amount pool \<Longrightarrow> lp_balance pool < amount \<Longrightarrow>
   borrow derive_id pool amount clk ctx = Inl (MoveAbort ''flash_loan'' EInsufficientBalance)"
  by (simp add: borrow_def balance_value_def not_le)

text \<open>
  C2, as amended. For every pool and amount with \<open>pool.active\<close>,
  \<open>amount \<le> pool.max_loan_amount\<close> and \<open>pool.balance \<ge> amount\<close>, and such that
  \<open>amount * fee_rate\<close> fits in a \<^verbatim>\<open>u64\<close> and \<open>total_loans_issued\<close> is below the largest
  \<^verbatim>\<open>u64\<close>, \<^verbatim>\<open>borrow\<close> succeeds: it withdraws exactly \<open>amount\<close> from the balance, returns
  funds of value \<open>amount\<close>, stores \<open>fee = floor(amount * fee_rate / 10000)\<close> in the
  obligation together with the caller as borrower and the pool's id, and adds 1 to
  \<open>total_loans_issued\<close>. The three assertions are checked in order: an inactive pool
  signals \<^verbatim>\<open>EPoolNotActive\<close>; an active pool with \<open>amount > max_loan_amount\<close> signals
  \<^verbatim>\<open>EMaxLoanExceeded\<close>; an active pool with \<open>amount \<le> max_loan_amount\<close> and
  \<open>balance < amount\<close> signals \<^verbatim>\<open>EInsufficientBalance\<close>.
\<close>

theorem borrow_spec:
  "(lp_active pool \<and> amount \<le> lp_max_loan_amount pool \<and> amount \<le> lp_balance pool \<and>
    unat amount * unat (lp_fee_rate pool) < 2 ^ 64 \<and>
    unat (lp_total_loans_issued pool) + 1 < 2 ^ 64 \<longrightarrow>
    (\<exists>funds loan pool' ctx' evs.
       borrow derive_id pool amount clk ctx = Inr (funds, loan, pool', ctx', evs) \<and>
       coin_value funds = amount \<and>
       unat (lp_balance pool') + unat amount = unat (lp_balance pool) \<and>
       unat (fl_fee loan) = unat amount * unat (lp_fee_rate pool) div 10000 \<and>
       fl_amount loan = amount \<and> fl_borrower loan = tc_sender ctx \<and>
       fl_pool_id loan = lp_id pool \<and>
       unat (lp_total_loans_issued pool') = unat (lp_total_loans_issued pool) + 1 \<and>
       lp_total_fees_collected pool' = lp_total_fees_collected pool \<and>
       lp_fee_rate pool' = lp_fee_rate pool \<and> lp_active pool' = lp_active pool)) \<and>
   (\<not> lp_active pool \<longrightarrow>
      borrow derive_id pool amount clk ctx = Inl (MoveAbort ''flash_loan'' EPoolNotActive)) \<and>
   (lp_active pool \<and> lp_max_loan_amount pool < amount \<longrightarrow>
      borrow derive_id pool amount clk ctx = Inl (MoveAbort ''flash_loan'' EMaxLoanExceeded)) \<and>
   (lp_active pool \<and> amount \<le> lp_max_loan_amount pool \<and> lp_balance pool < amount \<longrightarrow>
      borrow derive_id pool amount clk ctx =
        Inl (MoveAbort ''flash_loan'' EInsufficientBalance))"
proof (intro conjI impI)
  assume h: "lp_active pool \<and> amount \<le> lp_max_loan_amount pool \<and> amount \<le> lp_balance pool \<and>
    unat amount * unat (lp_fee_rate pool) < 2 ^ 64 \<and>
    unat (lp_total_loans_issued pool) + 1 < 2 ^ 64"
  then have le: "unat amount \<le> unat (lp_balance pool)"
    by (simp add: word_le_nat_alt)
  from h have sub: "unat (lp_balance pool - amount) = unat (lp_balance pool) - unat amount"
    by (simp add: unat_u64_sub)
  from h have cnt: "unat (lp_total_loans_issued pool + 1) = unat (lp_total_loans_issued pool) + 1"
    using unat_u64_add [of "lp_total_loans_issued pool" 1] by simp
  from h have fee: "unat (amount * lp_fee_rate pool div 10000)
      = unat amount * unat (lp_fee_rate pool) div 10000"
    by (simp add: unat_fee)
  from h show "\<exists>funds loan pool' ctx' evs.
       borrow derive_id pool amount clk ctx = Inr (funds, loan, pool', ctx', evs) \<and>
       coin_value funds = amount \<and>
       unat (lp_balance pool') + unat amount = unat (lp_balance pool) \<and>
       unat (fl_fee loan) = unat amount * unat (lp_fee_rate pool) div 10000 \<and>
       fl_amount loan = amount \<and> fl_borrower loan = tc_sender ctx \<and>
       fl_pool_id loan = lp_id pool \<and>
       unat (lp_total_loans_issued pool') = unat (lp_total_loans_issued pool) + 1 \<and>
       lp_total_fees_collected pool' = lp_total_fees_collected pool \<and>
       lp_fee_rate pool' = lp_fee_rate pool \<and> lp_active pool' = lp_active pool"
    using le sub cnt fee
    by (simp add: borrow_success coin_value_def balance_value_def)
qed (simp_all add: borrow_inactive borrow_above_max borrow_above_balance)

text \<open>C2, the theorem at a pool of 1000000 with a fee rate of 30 and a limit of 500000.\<close>

theorem borrow_spec_witness:
  "(\<exists>funds loan pool' ctx' evs.
       borrow sample_derive_id sample_pool 10000 sample_clock sample_ctx
         = Inr (funds, loan, pool', ctx', evs) \<and>
       coin_value funds = 10000 \<and>
       unat (lp_balance pool') + unat (10000 :: u64) = unat (lp_balance sample_pool) \<and>
       unat (fl_fee loan) = unat (10000 :: u64) * unat (lp_fee_rate sample_pool) div 10000 \<and>
       fl_amount loan = 10000 \<and> fl_borrower loan = tc_sender sample_ctx \<and>
       fl_pool_id loan = lp_id sample_pool \<and>
       unat (lp_total_loans_issued pool') = unat (lp_total_loans_issued sample_pool) + 1 \<and>
       lp_total_fees_collected pool' = lp_total_fees_collected sample_pool \<and>
       lp_fee_rate pool' = lp_fee_rate sample_pool \<and>
       lp_active pool' = lp_active sample_pool) \<and>
   borrow sample_derive_id (sample_pool\<lparr>lp_active := False\<rparr>) 10000 sample_clock sample_ctx
     = Inl (MoveAbort ''flash_loan'' EPoolNotActive) \<and>
   borrow sample_derive_id sample_pool 600000 sample_clock sample_ctx
     = Inl (MoveAbort ''flash_loan'' EMaxLoanExceeded) \<and>
   borrow sample_derive_id (sample_pool\<lparr>lp_balance := 5000\<rparr>) 10000 sample_clock sample_ctx
     = Inl (MoveAbort ''flash_loan'' EInsufficientBalance)"
  using borrow_spec [of sample_pool 10000 sample_derive_id sample_clock sample_ctx]
    borrow_spec [of "sample_pool\<lparr>lp_active := False\<rparr>" 10000 sample_derive_id sample_clock
      sample_ctx]
    borrow_spec [of sample_pool 600000 sample_derive_id sample_clock sample_ctx]
    borrow_spec [of "sample_pool\<lparr>lp_balance := 5000\<rparr>" 10000 sample_derive_id sample_clock
      sample_ctx]
  by (simp add: sample_pool_def)

text \<open>
  C2 as stated fails. An active pool of \<open>2 ^ 63\<close> with the fee rate 1000 and no
  effective limit is asked for \<open>2 ^ 63\<close>: the three preconditions hold and the product
  \<open>amount * fee_rate\<close> overflows, so the call aborts with an arithmetic error. And an
  inactive pool asked for more than its limit signals \<^verbatim>\<open>EPoolNotActive\<close>, not
  \<^verbatim>\<open>EMaxLoanExceeded\<close>.
\<close>

theorem borrow_overflow_counterexample:
  "lp_active (sample_pool\<lparr>lp_balance := 9223372036854775808, lp_fee_rate := 1000,
      lp_max_loan_amount := 18446744073709551615\<rparr>) \<and>
   (9223372036854775808 :: u64) \<le> lp_max_loan_amount
     (sample_pool\<lparr>lp_balance := 9223372036854775808, lp_fee_rate := 1000,
        lp_max_loan_amount := 18446744073709551615\<rparr>) \<and>
   (9223372036854775808 :: u64) \<le> lp_balance
     (sample_pool\<lparr>lp_balance := 9223372036854775808, lp_fee_rate := 1000,
        lp_max_loan_amount := 18446744073709551615\<rparr>) \<and>
   borrow sample_derive_id
     (sample_pool\<lparr>lp_balance := 9223372036854775808, lp_fee_rate := 1000,
        lp_max_loan_amount := 18446744073709551615\<rparr>)
     9223372036854775808 sample_clock sample_ctx = Inl ArithmeticError \<and>
   \<not> lp_active (sample_pool\<lparr>lp_active := False\<rparr>) \<and>
   lp_max_loan_amount (sample_pool\<lparr>lp_active := False\<rparr>) < 600000 \<and>
   borrow sample_derive_id (sample_pool\<lparr>lp_active := False\<rparr>) 600000 sample_clock sample_ctx
     = Inl (MoveAbort ''flash_loan'' EPoolNotActive) \<and>
   EPoolNotActive \<noteq> EMaxLoanExceeded"
  by (simp add: borrow_def balance_value_def u64_mul_def sample_pool_def EPoolNotActive_def
      EMaxLoanExceeded_def)

section \<open>\<^verbatim>\<open>repay\<close>\<close>

lemma repay_unauthorized:
  "tc_sender ctx \<noteq> fl_borrower loan \<Longrightarrow>
   repay pool payment loan clk ctx = Inl (MoveAbort ''flash_loan'' EUnauthorizedAccess)"
  by (simp add: repay_def Let_def)

lemma repay_underpaid:
  assumes "tc_sender ctx = fl_borrower loan"
    and "unat (fl_amount loan) + unat (fl_fee loan) < 2 ^ 64"
    and "unat (coin_value payment) < unat (fl_amount loan) + unat (fl_fee loan)"
  shows "repay pool payment loan clk ctx = Inl (MoveAbort ''flash_loan'' EInvalidRepayment)"
proof -
  have "\<not> fl_amount loan + fl_fee loan \<le> coin_value payment"
    using assms by (simp add: word_le_nat_alt unat_u64_add)
  then show ?thesis
    using assms by (simp add: repay_def Let_def u64_add_Inr)
qed

lemma repay_overflow:
  assumes "tc_sender ctx = fl_borrower loan"
    and "2 ^ 64 \<le> unat (fl_amount loan) + unat (fl_fee loan)"
  shows "repay pool payment loan clk ctx = Inl ArithmeticError"
  using assms by (simp add: repay_def Let_def u64_add_def)

lemma repay_success:
  assumes auth: "tc_sender ctx = fl_borrower loan"
    and paid: "unat (fl_amount loan) + unat (fl_fee loan) \<le> unat (coin_value payment)"
    and room: "unat (lp_balance pool) + unat (coin_value payment) < 2 ^ 64"
    and fees: "unat (lp_total_fees_collected pool) + unat (fl_fee loan) < 2 ^ 64"
  shows "repay pool payment loan clk ctx =
     Inr (pool\<lparr>lp_balance := lp_balance pool + coin_balance payment,
               lp_total_fees_collected := lp_total_fees_collected pool + fl_fee loan\<rparr>,
          [FlashLoanRepaid (fl_pool_id loan) (fl_borrower loan) (fl_amount loan) (fl_fee loan)
             (coin_value payment - fl_amount loan - fl_fee loan) (clk_timestamp_ms clk)])"
proof -
  have lt: "unat (coin_value payment) < 2 ^ 64"
    using unsigned_less [of "coin_value payment"] by simp
  with paid have sum: "unat (fl_amount loan) + unat (fl_fee loan) < 2 ^ 64"
    by simp
  then have due: "unat (fl_amount loan + fl_fee loan) = unat (fl_amount loan) + unat (fl_fee loan)"
    by (rule unat_u64_add)
  with paid have ge: "fl_amount loan + fl_fee loan \<le> coin_value payment"
    by (simp add: word_le_nat_alt)
  from paid have a_le: "fl_amount loan \<le> coin_value payment"
    by (simp add: word_le_nat_alt)
  then have "unat (coin_value payment - fl_amount loan)
      = unat (coin_value payment) - unat (fl_amount loan)"
    by (rule unat_u64_sub)
  with paid have f_le: "fl_fee loan \<le> coin_value payment - fl_amount loan"
    by (simp add: word_le_nat_alt)
  have zero: "coin_value payment - fl_amount loan - fl_fee loan = 0"
    if "\<not> fl_amount loan + fl_fee loan < coin_value payment"
  proof -
    from that ge have "coin_value payment = fl_amount loan + fl_fee loan"
      by simp
    then show ?thesis
      by simp
  qed
  show ?thesis
    using auth ge a_le f_le room fees sum zero
    by (simp add: repay_def Let_def u64_add_Inr u64_sub_Inr balance_join_def
        coin_into_balance_def coin_value_def balance_value_def)
qed

text \<open>
  C3, as amended. For every \<^verbatim>\<open>repay\<close> call: if the obligation's borrower differs from
  the caller it fails with \<^verbatim>\<open>EUnauthorizedAccess\<close>, whatever the payment; if the
  borrower is the caller, \<open>amount + fee\<close> fits in a \<^verbatim>\<open>u64\<close> and
  \<open>payment < amount + fee\<close>, it fails with \<^verbatim>\<open>EInvalidRepayment\<close>; in either case the
  pool is left exactly as before the call.
\<close>

theorem repay_failure_spec:
  "(tc_sender ctx \<noteq> fl_borrower loan \<longrightarrow>
      repay pool payment loan clk ctx = Inl (MoveAbort ''flash_loan'' EUnauthorizedAccess) \<and>
      pool_after pool (repay pool payment loan clk ctx) = pool) \<and>
   (tc_sender ctx = fl_borrower loan \<and>
    unat (fl_amount loan) + unat (fl_fee loan) < 2 ^ 64 \<and>
    unat (coin_value payment) < unat (fl_amount loan) + unat (fl_fee loan) \<longrightarrow>
      repay pool payment loan clk ctx = Inl (MoveAbort ''flash_loan'' EInvalidRepayment) \<and>
      pool_after pool (repay pool payment loan clk ctx) = pool)"
  by (simp add: repay_unauthorized repay_underpaid pool_after_def)

text \<open>
  C3, the theorem at a loan of 10000 with the fee 30 taken by the address 9: repaid by
  the address 8 with 20000, and by the borrower with 10029.
\<close>

theorem repay_failure_spec_witness:
  "(repay sample_pool \<lparr>coin_id = 21, coin_balance = 20000\<rparr> sample_loan sample_clock
       (sample_ctx\<lparr>tc_sender := 8\<rparr>)
      = Inl (MoveAbort ''flash_loan'' EUnauthorizedAccess) \<and>
    pool_after sample_pool
      (repay sample_pool \<lparr>coin_id = 21, coin_balance = 20000\<rparr> sample_loan sample_clock
         (sample_ctx\<lparr>tc_sender := 8\<rparr>)) = sample_pool) \<and>
   (repay sample_pool \<lparr>coin_id = 21, coin_balance = 10029\<rparr> sample_loan sample_clock sample_ctx
      = Inl (MoveAbort ''flash_loan'' EInvalidRepayment) \<and>
    pool_after sample_pool
      (repay sample_pool \<lparr>coin_id = 21, coin_balance = 10029\<rparr> sample_loan sample_clock
         sample_ctx) = sample_pool)"
  using repay_failure_spec [of "sample_ctx\<lparr>tc_sender := 8\<rparr>" sample_loan sample_pool
      "\<lparr>coin_id = 21, coin_balance = 20000\<rparr>" sample_clock]
    repay_failure_spec [of sample_ctx sample_loan sample_pool
      "\<lparr>coin_id = 21, coin_balance = 10029\<rparr>" sample_clock]
  by (simp add: sample_ctx_def sample_loan_def coin_value_def balance_value_def pool_after_def)

text \<open>
  C3 as stated fails. A pool holding \<open>2 ^ 64 - 1\<close> with the fee rate 1 lends its whole
  balance: the obligation has \<open>amount = 2 ^ 64 - 1\<close> and \<open>fee = 1844674407370955\<close>.
  The borrower repays with the borrowed coin, which is less than \<open>amount + fee\<close>; the
  sum overflows and the call aborts with an arithmetic error, not with
  \<^verbatim>\<open>EInvalidRepayment\<close>.
\<close>

theorem repay_overflow_counterexample:
  "borrow sample_derive_id
     (sample_pool\<lparr>lp_balance := 18446744073709551615, lp_fee_rate := 1,
        lp_max_loan_amount := 18446744073709551615\<rparr>)
     18446744073709551615 sample_clock sample_ctx
   = Inr (\<lparr>coin_id = 18446744073709551616, coin_balance = 18446744073709551615\<rparr>,
          \<lparr>fl_id = 18446744073709551617, fl_amount = 18446744073709551615,
            fl_fee = 1844674407370955, fl_borrower = 9, fl_pool_id = 10\<rparr>,
          sample_pool\<lparr>lp_balance := 0, lp_fee_rate := 1,
            lp_max_loan_amount := 18446744073709551615, lp_total_loans_issued := 1\<rparr>,
          sample_ctx\<lparr>tc_ids_created := 2\<rparr>,
          [FlashLoanBorrowed 10 9 18446744073709551615 1844674407370955 1700000000000]) \<and>
   repay (sample_pool\<lparr>lp_balance := 0, lp_fee_rate := 1,
            lp_max_loan_amount := 18446744073709551615, lp_total_loans_issued := 1\<rparr>)
     \<lparr>coin_id = 18446744073709551616, coin_balance = 18446744073709551615\<rparr>
     \<lparr>fl_id = 18446744073709551617, fl_amount = 18446744073709551615,
      fl_fee = 1844674407370955, fl_borrower = 9, fl_pool_id = 10\<rparr>
     sample_clock (sample_ctx\<lparr>tc_ids_created := 2\<rparr>)
   = Inl ArithmeticError \<and>
   unat (coin_value \<lparr>coin_id = 18446744073709551616, coin_balance = 18446744073709551615\<rparr>)
     < unat (18446744073709551615 :: u64) + unat (1844674407370955 :: u64)"
  by (simp add: borrow_def repay_def and_then_def balance_value_def u64_mul_def u64_div_def
      u64_add_def balance_split_def coin_from_balance_def object_new_def sample_derive_id_def
      sample_pool_def sample_ctx_def sample_clock_def coin_value_def Let_def)

lemma borrow_Inr:
  assumes "borrow derive_id pool amount clk ctx = Inr (funds, loan, pool', ctx', evs)"
  shows "unat amount * unat (lp_fee_rate pool) < 2 ^ 64"
    and "fl_fee loan = amount * lp_fee_rate pool div 10000"
    and "fl_amount loan = amount"
    and "fl_borrower loan = tc_sender ctx"
    and "lp_fee_rate pool' = lp_fee_rate pool"
    and "lp_total_fees_collected pool' = lp_total_fees_collected pool"
    and "tc_sender ctx' = tc_sender ctx"
  using assms
  by (auto simp: borrow_def u64_mul_def u64_div_def u64_add_def balance_split_def
      coin_from_balance_def object_new_def Let_def split: if_splits)

lemma repay_Inr:
  assumes "repay pool payment loan clk ctx = Inr (pool', evs)"
  shows "unat (lp_total_fees_collected pool')
           = unat (lp_total_fees_collected pool) + unat (fl_fee loan)"
    and "unat (fl_amount loan) + unat (fl_fee loan) \<le> unat (coin_value payment)"
    and "lp_fee_rate pool' = lp_fee_rate pool"
  using assms
  by (auto simp: repay_def u64_add_def balance_join_def Let_def and_then_def unat_u64_add
      word_le_nat_alt split: if_splits sum.splits)

text \<open>
  C4, as amended. For every pool and every valid amount (the pool is active, the amount
  is within the limit and the balance, and no counter or product overflows a \<^verbatim>\<open>u64\<close>), a
  borrow of \<open>amount\<close> followed by a repay with a payment of exactly \<open>amount + fee\<close>
  both succeed; overall \<open>pool.balance\<close> grows by \<open>fee\<close> (the whole payment is joined to
  the balance), \<open>total_loans_issued\<close> grows by 1 and \<open>total_fees_collected\<close> grows by
  \<open>fee\<close>.
\<close>

theorem borrow_repay_cycle:
  assumes "lp_active pool" and "amount \<le> lp_max_loan_amount pool"
    and "amount \<le> lp_balance pool"
    and "unat amount * unat (lp_fee_rate pool) < 2 ^ 64"
    and "unat (lp_total_loans_issued pool) + 1 < 2 ^ 64"
    and "unat (lp_balance pool) + unat amount * unat (lp_fee_rate pool) div 10000 < 2 ^ 64"
    and "unat (lp_total_fees_collected pool)
           + unat amount * unat (lp_fee_rate pool) div 10000 < 2 ^ 64"
    and "unat (coin_value payment)
           = unat amount + unat amount * unat (lp_fee_rate pool) div 10000"
  shows "\<exists>funds loan pool1 ctx1 evs1 pool2 evs2.
     borrow derive_id pool amount clk ctx = Inr (funds, loan, pool1, ctx1, evs1) \<and>
     repay pool1 payment loan clk ctx1 = Inr (pool2, evs2) \<and>
     unat (fl_fee loan) = unat amount * unat (lp_fee_rate pool) div 10000 \<and>
     unat (lp_balance pool2) = unat (lp_balance pool) + unat (fl_fee loan) \<and>
     unat (lp_total_loans_issued pool2) = unat (lp_total_loans_issued pool) + 1 \<and>
     unat (lp_total_fees_collected pool2)
       = unat (lp_total_fees_collected pool) + unat (fl_fee loan)"
proof -
  let ?fee = "amount * lp_fee_rate pool div 10000"
  let ?loan = "\<lparr>fl_id = derive_id (tc_tx_hash ctx) (tc_ids_created ctx + 1),
      fl_amount = amount, fl_fee = ?fee, fl_borrower = tc_sender ctx,
      fl_pool_id = lp_id pool\<rparr>"
  let ?pool1 = "pool\<lparr>lp_balance := lp_balance pool - amount,
      lp_total_loans_issued := lp_total_loans_issued pool + 1\<rparr>"
  let ?ctx1 = "ctx\<lparr>tc_ids_created := tc_ids_created ctx + 2\<rparr>"
  have fee: "unat ?fee = unat amount * unat (lp_fee_rate pool) div 10000"
    using assms(4) by (rule unat_fee)
  have sub: "unat (lp_balance pool - amount) = unat (lp_balance pool) - unat amount"
    using assms(3) by (rule unat_u64_sub)
  have le: "unat amount \<le> unat (lp_balance pool)"
    using assms(3) by (simp add: word_le_nat_alt)
  have cnt: "unat (lp_total_loans_issued pool + 1) = unat (lp_total_loans_issued pool) + 1"
    using unat_u64_add [of "lp_total_loans_issued pool" 1] assms(5) by simp
  have b: "borrow derive_id pool amount clk ctx =
      Inr (\<lparr>coin_id = derive_id (tc_tx_hash ctx) (tc_ids_created ctx), coin_balance = amount\<rparr>,
           ?loan, ?pool1, ?ctx1,
           [FlashLoanBorrowed (lp_id pool) (tc_sender ctx) amount ?fee (clk_timestamp_ms clk)])"
    using assms(1-5) by (simp add: borrow_success)
  have r: "repay ?pool1 payment ?loan clk ?ctx1 =
      Inr (?pool1\<lparr>lp_balance := lp_balance ?pool1 + coin_balance payment,
             lp_total_fees_collected := lp_total_fees_collected ?pool1 + fl_fee ?loan\<rparr>,
           [FlashLoanRepaid (fl_pool_id ?loan) (fl_borrower ?loan) (fl_amount ?loan)
              (fl_fee ?loan) (coin_value payment - fl_amount ?loan - fl_fee ?loan)
              (clk_timestamp_ms clk)])"
    using assms(6-8) fee sub le by (intro repay_success) simp_all
  have bal: "unat (lp_balance pool - amount + coin_balance payment)
      = unat (lp_balance pool) + unat ?fee"
  proof -
    have "unat (lp_balance pool - amount + coin_balance payment)
        = unat (lp_balance pool - amount) + unat (coin_balance payment)"
      using assms(6,8) sub le
      by (intro unat_u64_add) (simp add: coin_value_def balance_value_def)
    then show ?thesis
      using assms(8) sub le fee by (simp add: coin_value_def balance_value_def)
  qed
  have fees: "unat (lp_total_fees_collected pool + ?fee)
      = unat (lp_total_fees_collected pool) + unat ?fee"
    using assms(7) fee by (intro unat_u64_add) simp
  show ?thesis
    using b r fee bal cnt fees by simp
qed

text \<open>C4, the theorem at a loan of 10000 from the sample pool, repaid with 10030.\<close>

theorem borrow_repay_cycle_witness:
  "\<exists>funds loan pool1 ctx1 evs1 pool2 evs2.
     borrow sample_derive_id sample_pool 10000 sample_clock sample_ctx
       = Inr (funds, loan, pool1, ctx1, evs1) \<and>
     repay pool1 \<lparr>coin_id = 21, coin_balance = 10030\<rparr> loan sample_clock ctx1
       = Inr (pool2, evs2) \<and>
     unat (fl_fee loan) = unat (10000 :: u64) * unat (lp_fee_rate sample_pool) div 10000 \<and>
     unat (lp_balance pool2) = unat (lp_balance sample_pool) + unat (fl_fee loan) \<and>
     unat (lp_total_loans_issued pool2) = unat (lp_total_loans_issued sample_pool) + 1 \<and>
     unat (lp_total_fees_collected pool2)
       = unat (lp_total_fees_collected sample_pool) + unat (fl_fee loan)"
  by (rule borrow_repay_cycle)
    (simp_all add: sample_pool_def coin_value_def balance_value_def)

text \<open>
  C4 as stated fails: the balance is not unchanged. The sample pool holds 1000000;
  after a borrow of 10000 and a repay of exactly \<open>10000 + 30\<close> it holds 1000030.
\<close>

theorem borrow_repay_balance_counterexample:
  "borrow sample_derive_id sample_pool 10000 sample_clock sample_ctx
     = Inr (\<lparr>coin_id = 18446744073709551616, coin_balance = 10000\<rparr>,
            \<lparr>fl_id = 18446744073709551617, fl_amount = 10000, fl_fee = 30, fl_borrower = 9,
              fl_pool_id = 10\<rparr>,
            sample_pool\<lparr>lp_balance := 990000, lp_total_loans_issued := 1\<rparr>,
            sample_ctx\<lparr>tc_ids_created := 2\<rparr>,
            [FlashLoanBorrowed 10 9 10000 30 1700000000000]) \<and>
   repay (sample_pool\<lparr>lp_balance := 990000, lp_total_loans_issued := 1\<rparr>)
       \<lparr>coin_id = 21, coin_balance = 10030\<rparr>
       \<lparr>fl_id = 18446744073709551617, fl_amount = 10000, fl_fee = 30, fl_borrower = 9,
         fl_pool_id = 10\<rparr>
       sample_clock (sample_ctx\<lparr>tc_ids_created := 2\<rparr>)
     = Inr (sample_pool\<lparr>lp_balance := 1000030, lp_total_loans_issued := 1,
              lp_total_fees_collected := 30\<rparr>,
            [FlashLoanRepaid 10 9 10000 30 0 1700000000000]) \<and>
   lp_balance sample_pool = 1000000"
  by (simp add: borrow_def repay_def balance_value_def u64_mul_def u64_div_def
      u64_add_def u64_sub_def balance_split_def balance_join_def coin_from_balance_def
      coin_value_def coin_into_balance_def object_new_def sample_derive_id_def
      sample_pool_def sample_ctx_def sample_clock_def Let_def)

text \<open>
  C1. The claim: an obligation is created only by \<^verbatim>\<open>borrow\<close>, only \<^verbatim>\<open>repay\<close> on the same
  pool by the same borrower consumes it, and no other code path can discard, clone,
  store or persist it past the transaction that created it. The code departs from it
  in two ways. The struct is declared \<^verbatim>\<open>has key, store\<close>, so it is not a hot potato: any
  module may transfer or wrap the loan object and end the transaction without
  repaying. And \<^verbatim>\<open>repay\<close> never compares the loan's \<^verbatim>\<open>pool_id\<close> with the pool it is
  given: the loan borrowed from the pool 10 is consumed by a repay on the pool 11, and
  the pool 10 is left 10000 short.
\<close>

theorem flash_loan_escapes_repay:
  "\<not> hot_potato FlashLoan_abilities \<and> public_transfer_allowed FlashLoan_abilities \<and>
   borrow sample_derive_id sample_pool 10000 sample_clock sample_ctx
     = Inr (\<lparr>coin_id = 18446744073709551616, coin_balance = 10000\<rparr>,
            \<lparr>fl_id = 18446744073709551617, fl_amount = 10000, fl_fee = 30, fl_borrower = 9,
              fl_pool_id = 10\<rparr>,
            sample_pool\<lparr>lp_balance := 990000, lp_total_loans_issued := 1\<rparr>,
            sample_ctx\<lparr>tc_ids_created := 2\<rparr>,
            [FlashLoanBorrowed 10 9 10000 30 1700000000000]) \<and>
   lp_id sample_pool = 10 \<and>
   repay \<lparr>lp_id = 11, lp_balance = 0, lp_fee_rate = 0, lp_max_loan_amount = 0,
           lp_total_loans_issued = 0, lp_total_fees_collected = 0, lp_active = True,
           lp_admin = 9\<rparr>
       \<lparr>coin_id = 21, coin_balance = 10030\<rparr>
       \<lparr>fl_id = 18446744073709551617, fl_amount = 10000, fl_fee = 30, fl_borrower = 9,
         fl_pool_id = 10\<rparr>
       sample_clock (sample_ctx\<lparr>tc_ids_created := 2\<rparr>)
     = Inr (\<lparr>lp_id = 11, lp_balance = 10030, lp_fee_rate = 0, lp_max_loan_amount = 0,
              lp_total_loans_issued = 0, lp_total_fees_collected = 30, lp_active = True,
              lp_admin = 9\<rparr>,
            [FlashLoanRepaid 10 9 10000 30 0 1700000000000])"
  by (simp add: hot_potato_def public_transfer_allowed_def FlashLoan_abilities_def
      borrow_def repay_def balance_value_def u64_mul_def u64_div_def
      u64_add_def u64_sub_def balance_split_def balance_join_def coin_from_balance_def
      coin_value_def coin_into_balance_def object_new_def sample_derive_id_def
      sample_pool_def sample_ctx_def sample_clock_def Let_def)

section \<open>\<^verbatim>\<open>create_pool\<close> and \<^verbatim>\<open>update_fee_rate\<close>\<close>

lemma create_pool_result:
  "create_pool derive_id initial_balance fee_rate max_loan_amount ctx =
     Inr (\<lparr>lp_id = derive_id (tc_tx_hash ctx) (tc_ids_created ctx),
           lp_balance = coin_balance initial_balance, lp_fee_rate = fee_rate,
           lp_max_loan_amount = max_loan_amount, lp_total_loans_issued = 0,
           lp_total_fees_collected = 0, lp_active = True, lp_admin = tc_sender ctx\<rparr>,
          ctx\<lparr>tc_ids_created := tc_ids_created ctx + 1\<rparr>)"
  by (simp add: create_pool_def object_new_def coin_into_balance_def)

text \<open>
  C5. The claim: \<^verbatim>\<open>create_pool\<close> fails for every \<open>fee_rate_bps > 1000\<close>, and for every
  \<open>fee_rate_bps \<le> 1000\<close> it publishes a pool with zeroed counters and \<open>active = true\<close>.
  The code departs from the first half: \<^verbatim>\<open>create_pool\<close> checks nothing and publishes a
  pool with the fee rate 5000, a rate that \<^verbatim>\<open>update_fee_rate\<close> rejects (code 101, "Max
  10% fee").
\<close>

theorem create_pool_accepts_fee_rate_5000:
  "(1000 :: u64) < 5000 \<and>
   create_pool sample_derive_id \<lparr>coin_id = 5, coin_balance = 1000000\<rparr> 5000 500000 sample_ctx =
     Inr (\<lparr>lp_id = 18446744073709551616, lp_balance = 1000000, lp_fee_rate = 5000,
           lp_max_loan_amount = 500000, lp_total_loans_issued = 0,
           lp_total_fees_collected = 0, lp_active = True, lp_admin = 9\<rparr>,
          sample_ctx\<lparr>tc_ids_created := 1\<rparr>) \<and>
   update_fee_rate
     \<lparr>lp_id = 18446744073709551616, lp_balance = 1000000, lp_fee_rate = 30,
       lp_max_loan_amount = 500000, lp_total_loans_issued = 0,
       lp_total_fees_collected = 0, lp_active = True, lp_admin = 9\<rparr> 5000 sample_ctx
     = Inl (MoveAbort ''flash_loan'' 101)"
  by (simp add: create_pool_result update_fee_rate_def sample_ctx_def sample_derive_id_def)

lemma update_fee_rate_Inr:
  "update_fee_rate pool new_rate ctx = Inr pool' \<Longrightarrow>
   tc_sender ctx = lp_admin pool \<and> new_rate \<le> 1000 \<and> pool' = pool\<lparr>lp_fee_rate := new_rate\<rparr>"
  by (auto simp: update_fee_rate_def split: if_splits)

text \<open>
  C9. \<^verbatim>\<open>update_fee_rate\<close> rejects every \<open>new_rate > 1000\<close>. When it accepts
  \<open>new_rate\<close>, a later \<^verbatim>\<open>borrow\<close> on the updated pool computes its fee with the new rate
  and leaves the rate in place for the calls after it. An obligation created before the
  update keeps the fee of its own borrow: a \<^verbatim>\<open>repay\<close> after the update requires
  \<open>amount + fee\<close> with that fee and adds that fee to \<open>total_fees_collected\<close>.
\<close>

theorem update_fee_rate_spec:
  "(1000 < new_rate \<longrightarrow> (\<exists>e. update_fee_rate pool new_rate ctx = Inl e)) \<and>
   (update_fee_rate pool new_rate ctx = Inr pool' \<and>
    borrow derive_id pool' amount clk call_ctx = Inr (funds, loan, pool'', later_ctx, evs) \<longrightarrow>
      lp_fee_rate pool' = new_rate \<and>
      unat (fl_fee loan) = unat amount * unat new_rate div 10000 \<and>
      lp_fee_rate pool'' = new_rate) \<and>
   (borrow derive_id earlier_pool earlier_amount earlier_clk earlier_ctx
      = Inr (earlier_funds, earlier_loan, pool, earlier_ctx', earlier_evs) \<and>
    update_fee_rate pool new_rate ctx = Inr pool' \<and>
    repay pool' payment earlier_loan repay_clk repay_ctx = Inr (repaid_pool, repay_evs) \<longrightarrow>
      unat (fl_fee earlier_loan)
        = unat earlier_amount * unat (lp_fee_rate earlier_pool) div 10000 \<and>
      unat (fl_amount earlier_loan) + unat (fl_fee earlier_loan) \<le> unat (coin_value payment) \<and>
      unat (lp_total_fees_collected repaid_pool)
        = unat (lp_total_fees_collected earlier_pool) + unat (fl_fee earlier_loan))"
proof (intro conjI impI)
  assume "1000 < new_rate"
  then show "\<exists>e. update_fee_rate pool new_rate ctx = Inl e"
    by (simp add: update_fee_rate_def not_le)
next
  assume h: "update_fee_rate pool new_rate ctx = Inr pool' \<and>
    borrow derive_id pool' amount clk call_ctx = Inr (funds, loan, pool'', later_ctx, evs)"
  then have b: "borrow derive_id pool' amount clk call_ctx
      = Inr (funds, loan, pool'', later_ctx, evs)"
    by simp
  from h show rate: "lp_fee_rate pool' = new_rate"
    by (auto dest: update_fee_rate_Inr)
  from borrow_Inr(1,2) [OF b] rate
  show "unat (fl_fee loan) = unat amount * unat new_rate div 10000"
    by (simp add: unat_fee)
  from borrow_Inr(5) [OF b] rate show "lp_fee_rate pool'' = new_rate"
    by simp
next
  assume h: "borrow derive_id earlier_pool earlier_amount earlier_clk earlier_ctx
      = Inr (earlier_funds, earlier_loan, pool, earlier_ctx', earlier_evs) \<and>
    update_fee_rate pool new_rate ctx = Inr pool' \<and>
    repay pool' payment earlier_loan repay_clk repay_ctx = Inr (repaid_pool, repay_evs)"
  then have b: "borrow derive_id earlier_pool earlier_amount earlier_clk earlier_ctx
      = Inr (earlier_funds, earlier_loan, pool, earlier_ctx', earlier_evs)"
    and u: "update_fee_rate pool new_rate ctx = Inr pool'"
    and r: "repay pool' payment earlier_loan repay_clk repay_ctx = Inr (repaid_pool, repay_evs)"
    by simp_all
  from borrow_Inr(1,2) [OF b]
  show "unat (fl_fee earlier_loan)
      = unat earlier_amount * unat (lp_fee_rate earlier_pool) div 10000"
    by (simp add: unat_fee)
  from repay_Inr(2) [OF r]
  show "unat (fl_amount earlier_loan) + unat (fl_fee earlier_loan) \<le> unat (coin_value payment)" .
  from u have "lp_total_fees_collected pool' = lp_total_fees_collected pool"
    by (auto dest: update_fee_rate_Inr)
  with repay_Inr(1) [OF r] borrow_Inr(6) [OF b]
  show "unat (lp_total_fees_collected repaid_pool)
        = unat (lp_total_fees_collected earlier_pool) + unat (fl_fee earlier_loan)"
    by simp
qed

text \<open>
  C9, the theorem at the sample pool (fee rate 30, admin 7): the rate 5000 is rejected,
  the rate 100 accepted; a borrow of 10000 after the update owes the fee 100; a borrow
  of 10000 before the update owes the fee 30 and is repaid at 30 after it.
\<close>

theorem update_fee_rate_spec_witness:
  "(\<exists>e. update_fee_rate sample_pool 5000 (sample_ctx\<lparr>tc_sender := 7\<rparr>) = Inl e) \<and>
   update_fee_rate sample_pool 100 (sample_ctx\<lparr>tc_sender := 7\<rparr>)
     = Inr (sample_pool\<lparr>lp_fee_rate := 100\<rparr>) \<and>
   borrow sample_derive_id (sample_pool\<lparr>lp_fee_rate := 100\<rparr>) 10000 sample_clock sample_ctx
     = Inr (\<lparr>coin_id = 18446744073709551616, coin_balance = 10000\<rparr>,
            sample_loan\<lparr>fl_id := 18446744073709551617, fl_fee := 100\<rparr>,
            sample_pool\<lparr>lp_fee_rate := 100, lp_balance := 990000, lp_total_loans_issued := 1\<rparr>,
            sample_ctx\<lparr>tc_ids_created := 2\<rparr>,
            [FlashLoanBorrowed 10 9 10000 100 1700000000000]) \<and>
   (lp_fee_rate (sample_pool\<lparr>lp_fee_rate := 100\<rparr>) = 100 \<and>
    unat (fl_fee (sample_loan\<lparr>fl_id := 18446744073709551617, fl_fee := 100\<rparr>))
      = unat (10000 :: u64) * unat (100 :: u64) div 10000 \<and>
    lp_fee_rate (sample_pool\<lparr>lp_fee_rate := 100, lp_balance := 990000,
                   lp_total_loans_issued := 1\<rparr>) = 100) \<and>
   borrow sample_derive_id sample_pool 10000 sample_clock sample_ctx
     = Inr (\<lparr>coin_id = 18446744073709551616, coin_balance = 10000\<rparr>,
            sample_loan\<lparr>fl_id := 18446744073709551617\<rparr>,
            sample_pool\<lparr>lp_balance := 990000, lp_total_loans_issued := 1\<rparr>,
            sample_ctx\<lparr>tc_ids_created := 2\<rparr>,
            [FlashLoanBorrowed 10 9 10000 30 1700000000000]) \<and>
   update_fee_rate (sample_pool\<lparr>lp_balance := 990000, lp_total_loans_issued := 1\<rparr>) 100
       (sample_ctx\<lparr>tc_sender := 7\<rparr>)
     = Inr (sample_pool\<lparr>lp_balance := 990000, lp_total_loans_issued := 1,
              lp_fee_rate := 100\<rparr>) \<and>
   repay (sample_pool\<lparr>lp_balance := 990000, lp_total_loans_issued := 1, lp_fee_rate := 100\<rparr>)
       \<lparr>coin_id = 21, coin_balance = 10030\<rparr> (sample_loan\<lparr>fl_id := 18446744073709551617\<rparr>)
       sample_clock (sample_ctx\<lparr>tc_ids_created := 2\<rparr>)
     = Inr (sample_pool\<lparr>lp_balance := 1000030, lp_total_loans_issued := 1,
              lp_fee_rate := 100, lp_total_fees_collected := 30\<rparr>,
            [FlashLoanRepaid 10 9 10000 30 0 1700000000000]) \<and>
   (unat (fl_fee (sample_loan\<lparr>fl_id := 18446744073709551617\<rparr>))
      = unat (10000 :: u64) * unat (lp_fee_rate sample_pool) div 10000 \<and>
    unat (fl_amount (sample_loan\<lparr>fl_id := 18446744073709551617\<rparr>))
        + unat (fl_fee (sample_loan\<lparr>fl_id := 18446744073709551617\<rparr>))
      \<le> unat (coin_value \<lparr>coin_id = 21, coin_balance = 10030\<rparr>) \<and>
    unat (lp_total_fees_collected
            (sample_pool\<lparr>lp_balance := 1000030, lp_total_loans_issued := 1,
               lp_fee_rate := 100, lp_total_fees_collected := 30\<rparr>))
      = unat (lp_total_fees_collected sample_pool)
          + unat (fl_fee (sample_loan\<lparr>fl_id := 18446744073709551617\<rparr>)))"
proof -
  let ?admin = "sample_ctx\<lparr>tc_sender := 7\<rparr>"
  have u: "update_fee_rate sample_pool 100 ?admin = Inr (sample_pool\<lparr>lp_fee_rate := 100\<rparr>)"
    by (simp add: update_fee_rate_def sample_pool_def sample_ctx_def)
  have b1: "borrow sample_derive_id (sample_pool\<lparr>lp_fee_rate := 100\<rparr>) 10000 sample_clock
       sample_ctx
     = Inr (\<lparr>coin_id = 18446744073709551616, coin_balance = 10000\<rparr>,
            sample_loan\<lparr>fl_id := 18446744073709551617, fl_fee := 100\<rparr>,
            sample_pool\<lparr>lp_fee_rate := 100, lp_balance := 990000, lp_total_loans_issued := 1\<rparr>,
            sample_ctx\<lparr>tc_ids_created := 2\<rparr>,
            [FlashLoanBorrowed 10 9 10000 100 1700000000000])"
    by (simp add: borrow_def balance_value_def u64_mul_def u64_div_def u64_add_def
        balance_split_def coin_from_balance_def object_new_def sample_derive_id_def
        sample_pool_def sample_ctx_def sample_clock_def sample_loan_def Let_def)
  have b0: "borrow sample_derive_id sample_pool 10000 sample_clock sample_ctx
     = Inr (\<lparr>coin_id = 18446744073709551616, coin_balance = 10000\<rparr>,
            sample_loan\<lparr>fl_id := 18446744073709551617\<rparr>,
            sample_pool\<lparr>lp_balance := 990000, lp_total_loans_issued := 1\<rparr>,
            sample_ctx\<lparr>tc_ids_created := 2\<rparr>,
            [FlashLoanBorrowed 10 9 10000 30 1700000000000])"
    by (simp add: borrow_def balance_value_def u64_mul_def u64_div_def u64_add_def
        balance_split_def coin_from_balance_def object_new_def sample_derive_id_def
        sample_pool_def sample_ctx_def sample_clock_def sample_loan_def Let_def)
  have u1: "update_fee_rate (sample_pool\<lparr>lp_balance := 990000, lp_total_loans_issued := 1\<rparr>)
       100 ?admin
     = Inr (sample_pool\<lparr>lp_balance := 990000, lp_total_loans_issued := 1,
              lp_fee_rate := 100\<rparr>)"
    by (simp add: update_fee_rate_def sample_pool_def sample_ctx_def)
  have r: "repay (sample_pool\<lparr>lp_balance := 990000, lp_total_loans_issued := 1,
                    lp_fee_rate := 100\<rparr>)
       \<lparr>coin_id = 21, coin_balance = 10030\<rparr> (sample_loan\<lparr>fl_id := 18446744073709551617\<rparr>)
       sample_clock (sample_ctx\<lparr>tc_ids_created := 2\<rparr>)
     = Inr (sample_pool\<lparr>lp_balance := 1000030, lp_total_loans_issued := 1,
              lp_fee_rate := 100, lp_total_fees_collected := 30\<rparr>,
            [FlashLoanRepaid 10 9 10000 30 0 1700000000000])"
    by (simp add: repay_def balance_value_def u64_add_def u64_sub_def balance_join_def
        coin_value_def coin_into_balance_def sample_pool_def sample_ctx_def sample_clock_def
        sample_loan_def Let_def)
  have big: "(1000 :: u64) < 5000"
    by simp
  note c1 = update_fee_rate_spec [THEN conjunct1, THEN mp, OF big]
  note c2 = update_fee_rate_spec [THEN conjunct2, THEN conjunct1, THEN mp, OF conjI [OF u b1]]
  note c3 = update_fee_rate_spec [THEN conjunct2, THEN conjunct2, THEN mp,
      OF conjI [OF b0 conjI [OF u1 r]]]
  from c1 u b1 c2 b0 u1 r c3 show ?thesis
    by blast
qed

section \<open>The detectors\<close>

text \<open>The integer formulas are the exact ones rounded down.\<close>

lemma spot_price_floor_eq: "int (spot_price_floor reserve_base reserve_quote)
    = \<lfloor>spot_price reserve_base reserve_quote\<rfloor>"
proof (cases "reserve_base = 0")
  case True
  then show ?thesis
    by (simp add: spot_price_floor_def spot_price_def)
next
  case False
  then show ?thesis
    by (simp only: spot_price_floor_def spot_price_def if_False floor_divide_of_nat_eq)
qed

lemma relative_diff_bps_floor_eq:
  "int (relative_diff_bps_floor price_a price_b)
    = \<lfloor>(of_nat (price_diff_abs price_a price_b * 10000) :: rat)
        / of_nat ((price_a + price_b) div 2)\<rfloor>"
  by (simp only: relative_diff_bps_floor_def floor_divide_of_nat_eq)

lemma calculate_amm_price_Inr:
  assumes "reserve_a = 0 \<or> unat reserve_b * 1000000 < 2 ^ 64"
  shows "\<exists>p. calculate_amm_price reserve_a reserve_b = Inr p \<and>
             unat p = spot_price_floor (unat reserve_a) (unat reserve_b)"
proof (cases "reserve_a = 0")
  case True
  then show ?thesis
    by (simp add: calculate_amm_price_def spot_price_floor_def)
next
  case False
  with assms have fit: "unat reserve_b * unat (1000000 :: u64) < 2 ^ 64"
    by simp
  have "unat (reserve_b * 1000000 div reserve_a) = unat reserve_b * 1000000 div unat reserve_a"
    using unat_u64_mul [OF fit] by (simp add: unat_div)
  with False fit show ?thesis
    by (simp add: calculate_amm_price_def spot_price_floor_def u64_mul_Inr u64_div_Inr
        unat_eq_zero)
qed

lemma relative_diff_eval:
  fixes price_a price_b :: u64
  assumes scaled: "price_diff_abs (unat price_a) (unat price_b) * 10000 < 2 ^ 64"
    and sum: "unat price_a + unat price_b < 2 ^ 64"
    and avg: "2 \<le> unat price_a + unat price_b"
  shows "\<exists>price_diff relative_diff.
     (if price_a > price_b then u64_sub price_a price_b else u64_sub price_b price_a)
        = Inr price_diff \<and>
     unat price_diff = price_diff_abs (unat price_a) (unat price_b) \<and>
     and_then (u64_mul price_diff 10000) (\<lambda>scaled.
       and_then (u64_add price_a price_b) (\<lambda>price_sum.
         and_then (u64_div price_sum 2) (\<lambda>average. u64_div scaled average)))
        = Inr relative_diff \<and>
     unat relative_diff = relative_diff_bps_floor (unat price_a) (unat price_b)"
proof -
  let ?d = "if price_a > price_b then price_a - price_b else price_b - price_a"
  have d: "(if price_a > price_b then u64_sub price_a price_b else u64_sub price_b price_a)
      = Inr ?d"
    by (simp add: u64_sub_Inr)
  have ud: "unat ?d = price_diff_abs (unat price_a) (unat price_b)"
  proof (cases "price_a > price_b")
    case True
    then have "price_b \<le> price_a"
      by simp
    with True show ?thesis
      by (simp add: price_diff_abs_def unat_u64_sub word_less_nat_alt)
  next
    case False
    then have "price_a \<le> price_b"
      by simp
    with False show ?thesis
      by (simp add: price_diff_abs_def unat_u64_sub word_less_nat_alt)
  qed
  from scaled ud have m: "unat ?d * unat (10000 :: u64) < 2 ^ 64"
    by simp
  have um: "unat (?d * 10000) = price_diff_abs (unat price_a) (unat price_b) * 10000"
    using unat_u64_mul [OF m] ud by simp
  have us: "unat (price_a + price_b) = unat price_a + unat price_b"
    using sum by (rule unat_u64_add)
  have ua: "unat ((price_a + price_b) div 2) = (unat price_a + unat price_b) div 2"
    using us by (simp add: unat_div)
  with avg have nz: "(price_a + price_b) div 2 \<noteq> 0"
    by (auto simp: unat_eq_zero [symmetric] simp del: unat_eq_zero)
  have ur: "unat (?d * 10000 div ((price_a + price_b) div 2))
      = relative_diff_bps_floor (unat price_a) (unat price_b)"
    using um ua by (simp add: unat_div relative_diff_bps_floor_def)
  have "and_then (u64_mul ?d 10000) (\<lambda>scaled.
       and_then (u64_add price_a price_b) (\<lambda>price_sum.
         and_then (u64_div price_sum 2) (\<lambda>average. u64_div scaled average)))
      = Inr (?d * 10000 div ((price_a + price_b) div 2))"
    using m sum nz by (simp add: u64_mul_Inr u64_add_Inr u64_div_Inr)
  with d ud ur show ?thesis
    by blast
qed

lemma create_opportunity_success:
  assumes "unat (clk_timestamp_ms clk) + 300000 < 2 ^ 64"
    and "ad_opportunities detector (derive_id (tc_tx_hash ctx) (tc_ids_created ctx)) = None"
  shows "create_opportunity derive_id detector pool_a pool_b token_pair price_a price_b
       price_diff profit amount opp_type clk ctx =
     Inr (derive_id (tc_tx_hash ctx) (tc_ids_created ctx),
          detector\<lparr>ad_opportunities := (ad_opportunities detector)
            (derive_id (tc_tx_hash ctx) (tc_ids_created ctx) \<mapsto>
              \<lparr>ao_id = derive_id (tc_tx_hash ctx) (tc_ids_created ctx),
               ao_pool_a_id = pool_a, ao_pool_b_id = pool_b,
               ao_token_pair = token_pair, ao_price_a = price_a, ao_price_b = price_b,
               ao_price_difference = price_diff, ao_potential_profit = profit,
               ao_recommended_amount = amount, ao_opportunity_type = opp_type,
               ao_created_at = clk_timestamp_ms clk,
               ao_expires_at = clk_timestamp_ms clk + 300000,
               ao_executed = False\<rparr>)\<rparr>,
          ctx\<lparr>tc_ids_created := tc_ids_created ctx + 1\<rparr>)"
  using assms
  by (simp add: create_opportunity_def object_new_def u64_add_Inr table_add_def Let_def)

text \<open>
  C6, as amended. Every division of the computation is the integer quotient: each price
  is \<open>floor(reserve_quote * 1000000 / reserve_base)\<close>, 0 for an empty base reserve, the
  average is \<open>floor((price_a + price_b) / 2)\<close>, and \<open>relative_diff_bps = floor(|price_a -
  price_b| * 10000 / average)\<close>. For every pair of pool snapshots on which the
  computation does not abort (on each side the base reserve is 0 or \<open>reserve_quote *
  1000000\<close> fits in a \<^verbatim>\<open>u64\<close>; \<open>|price_a - price_b| * 10000\<close> and \<open>price_a + price_b\<close>
  fit in a \<^verbatim>\<open>u64\<close>; the average is not 0), \<^verbatim>\<open>detect_dex_arbitrage\<close> returns true iff
  this rounded \<open>relative_diff_bps\<close> exceeds \<open>min_profit_threshold_bps\<close>. On true, when
  the clock is at least 300000 below the largest \<^verbatim>\<open>u64\<close> and the new object id is not yet
  a key of the table, it records under that id a new opportunity of type
  \<^verbatim>\<open>dex_arbitrage\<close> with \<open>expires_at = created_at + 300000\<close>. On false the detector is
  unchanged, and so is the context, and no event is emitted.
\<close>

theorem detect_dex_arbitrage_spec:
  assumes fit_a: "pi_reserve_a pool_a_info = 0 \<or> unat (pi_reserve_b pool_a_info) * 1000000 < 2 ^ 64"
    and fit_b: "pi_reserve_a pool_b_info = 0 \<or> unat (pi_reserve_b pool_b_info) * 1000000 < 2 ^ 64"
    and scaled: "price_diff_abs (pool_spot_price_floor pool_a_info) (pool_spot_price_floor pool_b_info)
                   * 10000 < 2 ^ 64"
    and sum: "pool_spot_price_floor pool_a_info + pool_spot_price_floor pool_b_info < 2 ^ 64"
    and avg: "2 \<le> pool_spot_price_floor pool_a_info + pool_spot_price_floor pool_b_info"
  shows
   "(relative_diff_bps_floor (pool_spot_price_floor pool_a_info) (pool_spot_price_floor pool_b_info)
       > unat (ad_min_profit_threshold detector) \<and>
     unat (clk_timestamp_ms clk) + 300000 < 2 ^ 64 \<and>
     ad_opportunities detector (derive_id (tc_tx_hash ctx) (tc_ids_created ctx)) = None \<longrightarrow>
     (\<exists>opportunity ctx' evs.
        detect_dex_arbitrage derive_id detector pool_a_info pool_b_info clk ctx
          = Inr (True,
                 detector\<lparr>ad_opportunities := (ad_opportunities detector)
                   (derive_id (tc_tx_hash ctx) (tc_ids_created ctx) \<mapsto> opportunity)\<rparr>,
                 ctx', evs) \<and>
        ao_opportunity_type opportunity = ''dex_arbitrage'' \<and>
        ao_created_at opportunity = clk_timestamp_ms clk \<and>
        unat (ao_expires_at opportunity) = unat (ao_created_at opportunity) + 300000 \<and>
        unat (ao_price_a opportunity) = pool_spot_price_floor pool_a_info \<and>
        unat (ao_price_b opportunity) = pool_spot_price_floor pool_b_info \<and>
        unat (ao_potential_profit opportunity)
          = relative_diff_bps_floor (pool_spot_price_floor pool_a_info) (pool_spot_price_floor pool_b_info) \<and>
        \<not> ao_executed opportunity)) \<and>
    (\<not> relative_diff_bps_floor (pool_spot_price_floor pool_a_info) (pool_spot_price_floor pool_b_info)
         > unat (ad_min_profit_threshold detector) \<longrightarrow>
     detect_dex_arbitrage derive_id detector pool_a_info pool_b_info clk ctx
       = Inr (False, detector, ctx, []))"
proof -
  from calculate_amm_price_Inr [OF fit_a] obtain price_a where
    pa: "calculate_amm_price (pi_reserve_a pool_a_info) (pi_reserve_b pool_a_info) = Inr price_a"
    and ua: "unat price_a = pool_spot_price_floor pool_a_info"
    by (auto simp: pool_spot_price_floor_def)
  from calculate_amm_price_Inr [OF fit_b] obtain price_b where
    pb: "calculate_amm_price (pi_reserve_a pool_b_info) (pi_reserve_b pool_b_info) = Inr price_b"
    and ub: "unat price_b = pool_spot_price_floor pool_b_info"
    by (auto simp: pool_spot_price_floor_def)
  from relative_diff_eval [of price_a price_b] scaled sum avg ua ub
  obtain price_diff relative_diff where
    d: "(if price_a > price_b then u64_sub price_a price_b else u64_sub price_b price_a)
          = Inr price_diff"
    and r: "and_then (u64_mul price_diff 10000) (\<lambda>scaled.
       and_then (u64_add price_a price_b) (\<lambda>price_sum.
         and_then (u64_div price_sum 2) (\<lambda>average. u64_div scaled average)))
        = Inr relative_diff"
    and ur: "unat relative_diff
        = relative_diff_bps_floor (pool_spot_price_floor pool_a_info) (pool_spot_price_floor pool_b_info)"
    by auto
  have step: "detect_dex_arbitrage derive_id detector pool_a_info pool_b_info clk ctx =
     (if relative_diff > ad_min_profit_threshold detector then
       and_then (create_opportunity derive_id detector (pi_pool_id pool_a_info)
                   (pi_pool_id pool_b_info) ''SUI/USDC'' price_a price_b price_diff
                   relative_diff 1000000 ''dex_arbitrage'' clk ctx)
         (\<lambda>(opportunity_id, detector', ctx').
            Inr (True, detector', ctx',
                 [OpportunityDetected (tc_sender ctx') (pi_pool_id pool_a_info)
                    (pi_pool_id pool_b_info) ''SUI/USDC'' price_diff relative_diff 1000000
                    ''dex_arbitrage'' (clk_timestamp_ms clk)]))
      else Inr (False, detector, ctx, []))"
  proof -
    have "and_then (u64_mul price_diff 10000) (\<lambda>scaled.
       and_then (u64_add price_a price_b) (\<lambda>price_sum.
         and_then (u64_div price_sum 2) (\<lambda>average.
           and_then (u64_div scaled average) k))) = k relative_diff" for k :: "u64 \<Rightarrow> abort + (bool \<times> arbitrage_detector \<times> tx_context \<times> event list)"
      using r by (auto simp: and_then_def split: sum.splits)
    then show ?thesis
      unfolding detect_dex_arbitrage_def by (simp add: pa pb d)
  qed
  have cmp: "(relative_diff > ad_min_profit_threshold detector)
      = (relative_diff_bps_floor (pool_spot_price_floor pool_a_info) (pool_spot_price_floor pool_b_info)
           > unat (ad_min_profit_threshold detector))"
    using ur by (simp add: word_less_nat_alt)
  show ?thesis
  proof (intro conjI impI)
    assume h: "relative_diff_bps_floor (pool_spot_price_floor pool_a_info) (pool_spot_price_floor pool_b_info)
       > unat (ad_min_profit_threshold detector) \<and>
     unat (clk_timestamp_ms clk) + 300000 < 2 ^ 64 \<and>
     ad_opportunities detector (derive_id (tc_tx_hash ctx) (tc_ids_created ctx)) = None"
    then have ts: "unat (clk_timestamp_ms clk + 300000) = unat (clk_timestamp_ms clk) + 300000"
      using unat_u64_add [of "clk_timestamp_ms clk" 300000] by simp
    from h cmp ts ua ub ur
    show "\<exists>opportunity ctx' evs.
        detect_dex_arbitrage derive_id detector pool_a_info pool_b_info clk ctx
          = Inr (True,
                 detector\<lparr>ad_opportunities := (ad_opportunities detector)
                   (derive_id (tc_tx_hash ctx) (tc_ids_created ctx) \<mapsto> opportunity)\<rparr>,
                 ctx', evs) \<and>
        ao_opportunity_type opportunity = ''dex_arbitrage'' \<and>
        ao_created_at opportunity = clk_timestamp_ms clk \<and>
        unat (ao_expires_at opportunity) = unat (ao_created_at opportunity) + 300000 \<and>
        unat (ao_price_a opportunity) = pool_spot_price_floor pool_a_info \<and>
        unat (ao_price_b opportunity) = pool_spot_price_floor pool_b_info \<and>
        unat (ao_potential_profit opportunity)
          = relative_diff_bps_floor (pool_spot_price_floor pool_a_info) (pool_spot_price_floor pool_b_info) \<and>
        \<not> ao_executed opportunity"
      by (intro exI [of _ "\<lparr>ao_id = derive_id (tc_tx_hash ctx) (tc_ids_created ctx),
            ao_pool_a_id = pi_pool_id pool_a_info, ao_pool_b_id = pi_pool_id pool_b_info,
            ao_token_pair = ''SUI/USDC'', ao_price_a = price_a, ao_price_b = price_b,
            ao_price_difference = price_diff, ao_potential_profit = relative_diff,
            ao_recommended_amount = 1000000, ao_opportunity_type = ''dex_arbitrage'',
            ao_created_at = clk_timestamp_ms clk,
            ao_expires_at = clk_timestamp_ms clk + 300000, ao_executed = False\<rparr>"])
        (simp add: step create_opportunity_success)
  next
    assume "\<not> relative_diff_bps_floor (pool_spot_price_floor pool_a_info) (pool_spot_price_floor pool_b_info)
         > unat (ad_min_profit_threshold detector)"
    with cmp show "detect_dex_arbitrage derive_id detector pool_a_info pool_b_info clk ctx
       = Inr (False, detector, ctx, [])"
      by (simp add: step)
  qed
qed

text \<open>
  C6, the theorem at the example of the specification: with the threshold 10, the
  prices 1000000 and 1002000 differ by 19 bps after rounding and the detection fires;
  the prices 1000000 and 1000500 differ by 4 bps after rounding and it does not.
\<close>

theorem detect_dex_arbitrage_spec_witness:
  "pool_spot_price_floor sample_pool_info = 1000000 \<and>
   pool_spot_price_floor (sample_pool_info\<lparr>pi_pool_id := 41, pi_reserve_b := 1002000\<rparr>) = 1002000 \<and>
   relative_diff_bps_floor 1000000 1002000 = 19 \<and>
   unat (ad_min_profit_threshold sample_detector) = 10 \<and>
   (\<exists>opportunity ctx' evs.
      detect_dex_arbitrage sample_derive_id sample_detector sample_pool_info
          (sample_pool_info\<lparr>pi_pool_id := 41, pi_reserve_b := 1002000\<rparr>) sample_clock sample_ctx
        = Inr (True,
               sample_detector\<lparr>ad_opportunities := (ad_opportunities sample_detector)
                 (sample_derive_id (tc_tx_hash sample_ctx) (tc_ids_created sample_ctx)
                    \<mapsto> opportunity)\<rparr>,
               ctx', evs) \<and>
      ao_opportunity_type opportunity = ''dex_arbitrage'' \<and>
      ao_created_at opportunity = clk_timestamp_ms sample_clock \<and>
      unat (ao_expires_at opportunity) = unat (ao_created_at opportunity) + 300000 \<and>
      unat (ao_price_a opportunity) = 1000000 \<and>
      unat (ao_price_b opportunity) = 1002000 \<and>
      unat (ao_potential_profit opportunity) = 19 \<and>
      \<not> ao_executed opportunity) \<and>
   pool_spot_price_floor (sample_pool_info\<lparr>pi_pool_id := 41, pi_reserve_b := 1000500\<rparr>) = 1000500 \<and>
   relative_diff_bps_floor 1000000 1000500 = 4 \<and>
   detect_dex_arbitrage sample_derive_id sample_detector sample_pool_info
       (sample_pool_info\<lparr>pi_pool_id := 41, pi_reserve_b := 1000500\<rparr>) sample_clock sample_ctx
     = Inr (False, sample_detector, sample_ctx, [])"
proof -
  let ?b = "sample_pool_info\<lparr>pi_pool_id := 41, pi_reserve_b := 1002000\<rparr>"
  let ?c = "sample_pool_info\<lparr>pi_pool_id := 41, pi_reserve_b := 1000500\<rparr>"
  have pa: "pool_spot_price_floor sample_pool_info = 1000000"
    by (simp add: pool_spot_price_floor_def spot_price_floor_def sample_pool_info_def)
  have pb: "pool_spot_price_floor ?b = 1002000"
    by (simp add: pool_spot_price_floor_def spot_price_floor_def sample_pool_info_def)
  have pc: "pool_spot_price_floor ?c = 1000500"
    by (simp add: pool_spot_price_floor_def spot_price_floor_def sample_pool_info_def)
  have rb: "relative_diff_bps_floor 1000000 1002000 = 19"
    by (simp add: relative_diff_bps_floor_def price_diff_abs_def)
  have rc: "relative_diff_bps_floor 1000000 1000500 = 4"
    by (simp add: relative_diff_bps_floor_def price_diff_abs_def)
  have thr: "unat (ad_min_profit_threshold sample_detector) = 10"
    by (simp add: sample_detector_def)
  have fresh: "ad_opportunities sample_detector
      (sample_derive_id (tc_tx_hash sample_ctx) (tc_ids_created sample_ctx)) = None"
    by (simp add: sample_detector_def)
  have ts: "unat (clk_timestamp_ms sample_clock) + 300000 < 2 ^ 64"
    by (simp add: sample_clock_def)
  have a1: "pi_reserve_a sample_pool_info = 0
      \<or> unat (pi_reserve_b sample_pool_info) * 1000000 < 2 ^ 64"
    by (simp add: sample_pool_info_def)
  have b1: "pi_reserve_a ?b = 0 \<or> unat (pi_reserve_b ?b) * 1000000 < 2 ^ 64"
    by (simp add: sample_pool_info_def)
  have b3: "price_diff_abs (pool_spot_price_floor sample_pool_info) (pool_spot_price_floor ?b) * 10000
      < 2 ^ 64"
    by (simp add: pa pb price_diff_abs_def)
  have b4: "pool_spot_price_floor sample_pool_info + pool_spot_price_floor ?b < 2 ^ 64"
    by (simp add: pa pb)
  have b5: "2 \<le> pool_spot_price_floor sample_pool_info + pool_spot_price_floor ?b"
    by (simp add: pa pb)
  have bh: "relative_diff_bps_floor (pool_spot_price_floor sample_pool_info) (pool_spot_price_floor ?b)
        > unat (ad_min_profit_threshold sample_detector) \<and>
      unat (clk_timestamp_ms sample_clock) + 300000 < 2 ^ 64 \<and>
      ad_opportunities sample_detector
        (sample_derive_id (tc_tx_hash sample_ctx) (tc_ids_created sample_ctx)) = None"
    using ts fresh by (simp add: pa pb rb thr)
  have fires: "\<exists>opportunity ctx' evs.
      detect_dex_arbitrage sample_derive_id sample_detector sample_pool_info ?b sample_clock
          sample_ctx
        = Inr (True,
               sample_detector\<lparr>ad_opportunities := (ad_opportunities sample_detector)
                 (sample_derive_id (tc_tx_hash sample_ctx) (tc_ids_created sample_ctx)
                    \<mapsto> opportunity)\<rparr>,
               ctx', evs) \<and>
      ao_opportunity_type opportunity = ''dex_arbitrage'' \<and>
      ao_created_at opportunity = clk_timestamp_ms sample_clock \<and>
      unat (ao_expires_at opportunity) = unat (ao_created_at opportunity) + 300000 \<and>
      unat (ao_price_a opportunity) = 1000000 \<and>
      unat (ao_price_b opportunity) = 1002000 \<and>
      unat (ao_potential_profit opportunity) = 19 \<and>
      \<not> ao_executed opportunity"
    using detect_dex_arbitrage_spec [where detector = sample_detector and clk = sample_clock
        and ctx = sample_ctx and derive_id = sample_derive_id,
        OF a1 b1 b3 b4 b5, THEN conjunct1, THEN mp, OF bh]
    unfolding pa pb rb .
  have c1: "pi_reserve_a ?c = 0 \<or> unat (pi_reserve_b ?c) * 1000000 < 2 ^ 64"
    by (simp add: sample_pool_info_def)
  have c3: "price_diff_abs (pool_spot_price_floor sample_pool_info) (pool_spot_price_floor ?c) * 10000
      < 2 ^ 64"
    by (simp add: pa pc price_diff_abs_def)
  have c4: "pool_spot_price_floor sample_pool_info + pool_spot_price_floor ?c < 2 ^ 64"
    by (simp add: pa pc)
  have c5: "2 \<le> pool_spot_price_floor sample_pool_info + pool_spot_price_floor ?c"
    by (simp add: pa pc)
  have ch: "\<not> relative_diff_bps_floor (pool_spot_price_floor sample_pool_info) (pool_spot_price_floor ?c)
        > unat (ad_min_profit_threshold sample_detector)"
    by (simp add: pa pc rc thr)
  have quiet: "detect_dex_arbitrage sample_derive_id sample_detector sample_pool_info ?c
       sample_clock sample_ctx = Inr (False, sample_detector, sample_ctx, [])"
    using detect_dex_arbitrage_spec [where detector = sample_detector and clk = sample_clock
        and ctx = sample_ctx and derive_id = sample_derive_id,
        OF a1 c1 c3 c4 c5, THEN conjunct2, THEN mp, OF ch] .
  from pa pb rb thr fires pc rc quiet show ?thesis
    by blast
qed

text \<open>
  C6 as stated fails, in three ways, with the threshold 10 unless said otherwise. The
  prices 1000000 and 1001050 are exact and differ by \<open>21000000 / 2001050\<close>, about 10.49
  bps, more than the threshold; the code rounds the quotient down to 10 and returns
  false. The prices 0 and 3 differ by exactly 20000 bps, less than a threshold of 25000;
  the code rounds the average 1.5 down to 1, finds 30000 and returns true, recording an
  opportunity. And a pool with the reserves 1 and 20000000000000 has the spot price
  \<open>2 * 10 ^ 19\<close>, far more than 10 bps from the price 1000000 of the other pool, and the
  call returns nothing: \<open>reserve_b * 1000000\<close> overflows a \<^verbatim>\<open>u64\<close> and the call aborts.
\<close>

theorem detect_dex_arbitrage_counterexample:
  "pool_spot_price sample_pool_info = 1000000 \<and>
   pool_spot_price (sample_pool_info\<lparr>pi_pool_id := 41, pi_reserve_b := 1001050\<rparr>) = 1001050 \<and>
   relative_diff_bps 1000000 1001050 = 21000000 / 2001050 \<and>
   relative_diff_bps (pool_spot_price sample_pool_info)
       (pool_spot_price (sample_pool_info\<lparr>pi_pool_id := 41, pi_reserve_b := 1001050\<rparr>))
     > of_nat (unat (ad_min_profit_threshold sample_detector)) \<and>
   detect_dex_arbitrage sample_derive_id sample_detector sample_pool_info
       (sample_pool_info\<lparr>pi_pool_id := 41, pi_reserve_b := 1001050\<rparr>) sample_clock sample_ctx
     = Inr (False, sample_detector, sample_ctx, []) \<and>
   pool_spot_price (sample_pool_info\<lparr>pi_reserve_a := 0\<rparr>) = 0 \<and>
   pool_spot_price (sample_pool_info\<lparr>pi_pool_id := 41, pi_reserve_b := 3\<rparr>) = 3 \<and>
   relative_diff_bps 0 3 = 20000 \<and>
   relative_diff_bps (pool_spot_price (sample_pool_info\<lparr>pi_reserve_a := 0\<rparr>))
       (pool_spot_price (sample_pool_info\<lparr>pi_pool_id := 41, pi_reserve_b := 3\<rparr>))
     < of_nat (unat (ad_min_profit_threshold
         (sample_detector\<lparr>ad_min_profit_threshold := 25000\<rparr>))) \<and>
   detect_dex_arbitrage sample_derive_id (sample_detector\<lparr>ad_min_profit_threshold := 25000\<rparr>)
       (sample_pool_info\<lparr>pi_reserve_a := 0\<rparr>)
       (sample_pool_info\<lparr>pi_pool_id := 41, pi_reserve_b := 3\<rparr>) sample_clock sample_ctx
     = Inr (True,
            sample_detector\<lparr>ad_min_profit_threshold := 25000,
              ad_opportunities := (ad_opportunities sample_detector)
                (18446744073709551616 \<mapsto>
                   \<lparr>ao_id = 18446744073709551616, ao_pool_a_id = 40, ao_pool_b_id = 41,
                    ao_token_pair = ''SUI/USDC'', ao_price_a = 0, ao_price_b = 3,
                    ao_price_difference = 3, ao_potential_profit = 30000,
                    ao_recommended_amount = 1000000, ao_opportunity_type = ''dex_arbitrage'',
                    ao_created_at = 1700000000000, ao_expires_at = 1700000300000,
                    ao_executed = False\<rparr>)\<rparr>,
            sample_ctx\<lparr>tc_ids_created := 1\<rparr>,
            [OpportunityDetected 9 40 41 ''SUI/USDC'' 3 30000 1000000 ''dex_arbitrage''
               1700000000000]) \<and>
   relative_diff_bps
       (pool_spot_price (sample_pool_info\<lparr>pi_reserve_a := 1, pi_reserve_b := 20000000000000\<rparr>))
       (pool_spot_price (sample_pool_info\<lparr>pi_pool_id := 41\<rparr>))
     > of_nat (unat (ad_min_profit_threshold sample_detector)) \<and>
   detect_dex_arbitrage sample_derive_id sample_detector
       (sample_pool_info\<lparr>pi_reserve_a := 1, pi_reserve_b := 20000000000000\<rparr>)
       (sample_pool_info\<lparr>pi_pool_id := 41\<rparr>) sample_clock sample_ctx
     = Inl ArithmeticError"
  by (simp add: pool_spot_price_def spot_price_def relative_diff_bps_def
      sample_pool_info_def sample_detector_def sample_ctx_def sample_clock_def
      sample_derive_id_def detect_dex_arbitrage_def calculate_amm_price_def
      create_opportunity_def object_new_def table_add_def
      u64_mul_def u64_div_def u64_add_def u64_sub_def Let_def)

lemma dex_empty_pools_abort:
  "detect_dex_arbitrage derive_id detector (pool_a_info\<lparr>pi_reserve_a := 0\<rparr>)
       (pool_b_info\<lparr>pi_reserve_a := 0\<rparr>) clk ctx = Inl ArithmeticError"
  by (simp add: detect_dex_arbitrage_def calculate_amm_price_def u64_mul_def u64_div_def
      u64_sub_def u64_add_def)

text \<open>
  C7. The claim: \<^verbatim>\<open>detect_dex_arbitrage\<close> never divides by zero; each price is
  \<open>reserve_quote * SCALE / reserve_base\<close>, 0 for an empty base reserve, and every
  division of the computation has a nonzero divisor. The code departs from it: the
  guard of \<^verbatim>\<open>calculate_amm_price\<close> makes both prices 0 for two pools with an empty base
  reserve, the average \<open>(0 + 0) / 2\<close> is 0, and the relative difference divides by it.
\<close>

theorem dex_average_zero_aborts:
  "calculate_amm_price 0 5000 = Inr 0 \<and>
   u64_add 0 0 = Inr 0 \<and> u64_div 0 2 = Inr 0 \<and> u64_div 0 0 = Inl ArithmeticError \<and>
   detect_dex_arbitrage sample_derive_id sample_detector
       (sample_pool_info\<lparr>pi_reserve_a := 0, pi_reserve_b := 5000\<rparr>)
       (sample_pool_info\<lparr>pi_pool_id := 41, pi_reserve_a := 0, pi_reserve_b := 7000\<rparr>)
       sample_clock sample_ctx
     = Inl ArithmeticError"
  by (simp add: detect_dex_arbitrage_def calculate_amm_price_def u64_mul_def u64_div_def
      u64_sub_def u64_add_def sample_pool_info_def)

text \<open>
  C8. The claim: \<^verbatim>\<open>detect_cross_chain_arbitrage\<close> returns true iff the relative
  difference exceeds twice the threshold, and whenever it returns true it records an
  opportunity of kind \<^verbatim>\<open>cross_chain\<close> in the detector's table. The code departs from
  the second half: with the threshold 10 and the prices 1000000 and 1010000 (99 bps) it
  returns true and emits the event, and the detector it leaves is the detector it was
  given, with an empty table. \<^verbatim>\<open>detect_dex_arbitrage\<close> records through
  \<^verbatim>\<open>create_opportunity\<close>; this function never calls it.
\<close>

theorem cross_chain_records_nothing:
  "detect_cross_chain_arbitrage sample_detector sample_oracle 1000000 1010000 sample_clock
       sample_ctx
     = Inr (True, sample_detector,
            [OpportunityDetected 9 1 2 ''SUI/USD'' 10000 99 5000000 ''cross_chain''
               1700000000000]) \<and>
   opportunity_count sample_detector = 0"
  by (simp add: detect_cross_chain_arbitrage_def u64_mul_def u64_div_def u64_sub_def
      u64_add_def sample_ctx_def sample_clock_def sample_detector_def opportunity_count_def)

text \<open>
  C10. \<^verbatim>\<open>detect_liquidation_opportunity\<close> divides \<open>collateral_value * 10000\<close> by
  \<open>debt_value\<close> with no guard: for \<open>debt_value = 0\<close> the call aborts with an arithmetic
  error whatever the other arguments are, so it can only return when \<open>debt_value > 0\<close>.
\<close>

theorem liquidation_zero_debt_aborts:
  "detect_liquidation_opportunity detector collateral_value 0 liquidation_threshold clk ctx
     = Inl ArithmeticError"
  by (simp add: detect_liquidation_opportunity_def and_then_def u64_mul_def u64_div_def)

text \<open>With a positive debt it returns: the example of the specification.\<close>

lemma liquidation_spec_example:
  "detect_liquidation_opportunity sample_detector 8000 10000 8500 sample_clock sample_ctx
     = Inr (True, sample_detector,
            [OpportunityDetected 9 0 0 ''COLLATERAL/DEBT'' 2000 500 10000 ''liquidation''
               1700000000000])"
  by (simp add: detect_liquidation_opportunity_def u64_mul_def u64_div_def u64_sub_def
      sample_ctx_def sample_clock_def)

end
